theory Spec2Isabelle
  imports Main "HOL-Library.AList"
begin

section \<open>Time\<close>

text \<open>
  \<^verbatim>\<open>time.Time\<close> is an instant in nanoseconds on one time line whose origin is the zero
  \<^verbatim>\<open>Time\<close> (January 1, year 1), the value of an unset \<^verbatim>\<open>lastPress\<close>. A
  \<^verbatim>\<open>time.Duration\<close> is a signed 64-bit count of nanoseconds; \<^verbatim>\<open>Time.Sub\<close> and
  \<^verbatim>\<open>time.Since\<close> saturate at its bounds.
\<close>

type_synonym Time = int
type_synonym Duration = int

definition minDuration :: Duration where
  "minDuration = - (2 ^ 63)"

definition maxDuration :: Duration where
  "maxDuration = 2 ^ 63 - 1"

definition is_Duration :: "int \<Rightarrow> bool" where
  "is_Duration d = (minDuration \<le> d \<and> d \<le> maxDuration)"

definition Millisecond :: Duration where
  "Millisecond = 1000000"

definition IsZero :: "Time \<Rightarrow> bool" where
  "IsZero t = (t = 0)"

definition Sub :: "Time \<Rightarrow> Time \<Rightarrow> Duration" where
  "Sub t u =
     (if t - u > maxDuration then maxDuration
      else if t - u < minDuration then minDuration
      else t - u)"

text \<open>\<^verbatim>\<open>time.Since(t)\<close> is \<^verbatim>\<open>time.Now().Sub(t)\<close>; the clock reading is an argument.\<close>

definition Since :: "Time \<Rightarrow> Time \<Rightarrow> Duration" where
  "Since t now = Sub now t"

text \<open>Go's integer division truncates toward zero.\<close>

definition go_quot :: "int \<Rightarrow> int \<Rightarrow> int" where
  "go_quot a b = sgn a * sgn b * (\<bar>a\<bar> div \<bar>b\<bar>)"

definition defaultDebounceTime :: Duration where
  "defaultDebounceTime = 50 * Millisecond"

text \<open>
  A \<^verbatim>\<open>ButtonCallback\<close> is a function value or nil. A function is named by a number; calling
  it is recorded as the pair of that number and the pin name it receives.
\<close>

type_synonym ButtonCallback = "nat option"
type_synonym invocation = "nat \<times> string"

section \<open>The poll variant (periph.io)\<close>

text \<open>
  \<^verbatim>\<open>gpio.Pull\<close> of periph.io is a \<^verbatim>\<open>uint8\<close>; the code compares it with 0 and uses the
  constant \<^verbatim>\<open>gpio.PullNoChange\<close>, whose number is the library's. \<^verbatim>\<open>gpio.Level\<close> is a
  boolean, \<^verbatim>\<open>Low\<close> being false.
\<close>

type_synonym gpio_Pull = nat

datatype gpio_Edge = gpio_NoEdge | gpio_RisingEdge | gpio_FallingEdge | gpio_BothEdges

type_synonym gpio_Level = bool

definition gpio_Low :: gpio_Level where
  "gpio_Low = False"

definition gpio_High :: gpio_Level where
  "gpio_High = True"

text \<open>A \<^verbatim>\<open>gpio.PinIO\<close> is a handle of the hardware layer, named by a number.\<close>

type_synonym PinIO = nat

record ButtonConfig_p =
  PinName_p :: string
  Callback_p :: ButtonCallback
  DebounceTime_p :: Duration
  Pull_p :: gpio_Pull

record button_p =
  pin_p :: PinIO
  config_p :: ButtonConfig_p
  lastPress_p :: Time

text \<open>The calls the manager makes on the hardware layer, most recent first.\<close>

datatype hw_call_p = Call_In PinIO gpio_Pull gpio_Edge | Call_Halt PinIO

text \<open>
  \<^verbatim>\<open>ButtonManager\<close> and what runs around it: the registry (a Go map; the association
  list keeps one entry per key), whether \<^verbatim>\<open>cancel\<close> has been called on the context, the
  counter of the wait group, the \<^verbatim>\<open>monitorButton\<close> goroutines that have been started and
  have not returned, each with its button, the callbacks dispatched so far, and the calls
  made on the hardware layer.
\<close>

record ButtonManager_p =
  buttons_p :: "(string \<times> button_p) list"
  cancelled_p :: bool
  wg_p :: nat
  spawned_p :: "button_p list"
  dispatched_p :: "invocation list"
  hw_p :: "hw_call_p list"

datatype error_p =
    FailedToFindPin string
  | FailedToConfigurePin string string
  | NoButtonsConfigured_p

text \<open>
  The library as \<^verbatim>\<open>AddButton\<close> sees it: \<^verbatim>\<open>gpioreg.ByName\<close> (nil is \<open>None\<close>), the error
  of \<^verbatim>\<open>pin.In\<close> (nil is \<open>None\<close>), and the number of \<^verbatim>\<open>gpio.PullNoChange\<close>.
\<close>

record host_p =
  ByName :: "string \<Rightarrow> PinIO option"
  In_err :: "PinIO \<Rightarrow> gpio_Pull \<Rightarrow> gpio_Edge \<Rightarrow> string option"
  gpio_PullNoChange :: gpio_Pull

definition defaultPull :: "host_p \<Rightarrow> gpio_Pull" where
  "defaultPull host = gpio_PullNoChange host"

definition NewButtonManager_p :: ButtonManager_p where
  "NewButtonManager_p =
     \<lparr>buttons_p = [], cancelled_p = False, wg_p = 0, spawned_p = [], dispatched_p = [],
      hw_p = []\<rparr>"

definition apply_defaults_p :: "host_p \<Rightarrow> ButtonConfig_p \<Rightarrow> ButtonConfig_p" where
  "apply_defaults_p host config =
     (let c1 = (if DebounceTime_p config = 0
                then config\<lparr>DebounceTime_p := defaultDebounceTime\<rparr> else config)
      in if Pull_p c1 = 0 then c1\<lparr>Pull_p := defaultPull host\<rparr> else c1)"

definition AddButton_p ::
  "host_p \<Rightarrow> ButtonManager_p \<Rightarrow> ButtonConfig_p \<Rightarrow> error_p option \<times> ButtonManager_p" where
  "AddButton_p host bm config0 =
     (let config = apply_defaults_p host config0 in
      case ByName host (PinName_p config) of
        None \<Rightarrow> (Some (FailedToFindPin (PinName_p config)), bm)
      | Some pin \<Rightarrow>
          (let bm1 = bm\<lparr>hw_p := Call_In pin (Pull_p config) gpio_BothEdges # hw_p bm\<rparr> in
           case In_err host pin (Pull_p config) gpio_BothEdges of
             Some err \<Rightarrow> (Some (FailedToConfigurePin (PinName_p config) err), bm1)
           | None \<Rightarrow>
               (None,
                bm1\<lparr>buttons_p :=
                      AList.update (PinName_p config)
                        \<lparr>pin_p = pin, config_p = config, lastPress_p = 0\<rparr>
                        (buttons_p bm1)\<rparr>)))"

definition GetButtonCount_p :: "ButtonManager_p \<Rightarrow> nat" where
  "GetButtonCount_p bm = length (buttons_p bm)"

text \<open>
  \<^verbatim>\<open>Start\<close>: for every registered button the wait group is incremented and a
  \<^verbatim>\<open>monitorButton\<close> goroutine is started.
\<close>

definition spawn_monitor :: "string \<times> button_p \<Rightarrow> ButtonManager_p \<Rightarrow> ButtonManager_p" where
  "spawn_monitor kb bm = bm\<lparr>wg_p := wg_p bm + 1, spawned_p := spawned_p bm @ [snd kb]\<rparr>"

definition Start_p :: "ButtonManager_p \<Rightarrow> error_p option \<times> ButtonManager_p" where
  "Start_p bm =
     (if length (buttons_p bm) = 0 then (Some NoButtonsConfigured_p, bm)
      else (None, fold spawn_monitor (buttons_p bm) bm))"

subsection \<open>The debounce check and the watch loop\<close>

definition isPressed :: "gpio_Level \<Rightarrow> bool" where
  "isPressed read_level = (read_level = gpio_Low)"

definition isDebouncePassed :: "button_p \<Rightarrow> Time \<Rightarrow> bool" where
  "isDebouncePassed btn now = (Since (lastPress_p btn) now > DebounceTime_p (config_p btn))"

definition updateLastPress :: "button_p \<Rightarrow> Time \<Rightarrow> button_p" where
  "updateLastPress btn now = btn\<lparr>lastPress_p := now\<rparr>"

definition invokeCallback :: "button_p \<Rightarrow> invocation list" where
  "invokeCallback btn =
     (case Callback_p (config_p btn) of
        None \<Rightarrow> []
      | Some cb \<Rightarrow> [(cb, PinName_p (config_p btn))])"

text \<open>
  One return of \<^verbatim>\<open>WaitForEdge(-1)\<close> as \<^verbatim>\<open>monitorButton\<close> sees it: the result of the
  wait, what \<^verbatim>\<open>isShuttingDown\<close> answers then, the level \<^verbatim>\<open>pin.Read\<close> returns, and the
  two clock readings, the one of \<^verbatim>\<open>time.Since\<close> in \<^verbatim>\<open>isDebouncePassed\<close> and the one of
  \<^verbatim>\<open>time.Now\<close> in \<^verbatim>\<open>updateLastPress\<close>.
\<close>

record wake =
  edge :: bool
  shutting_down :: bool
  level :: gpio_Level
  now_check :: Time
  now_update :: Time

datatype iteration = Return | Idle | Press button_p "invocation list"

text \<open>The body of the loop of \<^verbatim>\<open>monitorButton\<close>.\<close>

definition monitor_body :: "button_p \<Rightarrow> wake \<Rightarrow> iteration" where
  "monitor_body btn w =
     (if \<not> edge w then (if shutting_down w then Return else Idle)
      else if shutting_down w then Return
      else if isPressed (level w) \<and> isDebouncePassed btn (now_check w)
           then (let btn' = updateLastPress btn (now_update w)
                 in Press btn' (invokeCallback btn'))
      else Idle)"

text \<open>
  \<^verbatim>\<open>monitorButton\<close> over the wake-ups that occur: the button as the goroutine leaves it,
  the callbacks it dispatched, in order, and whether it returned (and so called
  \<^verbatim>\<open>wg.Done\<close>); with no wake-up left it stays blocked in \<^verbatim>\<open>WaitForEdge\<close>.
\<close>

fun monitorButton :: "button_p \<Rightarrow> wake list \<Rightarrow> button_p \<times> invocation list \<times> bool" where
  "monitorButton btn [] = (btn, [], False)"
| "monitorButton btn (w # ws) =
     (case monitor_body btn w of
        Return \<Rightarrow> (btn, [], True)
      | Idle \<Rightarrow> monitorButton btn ws
      | Press btn' cs \<Rightarrow>
          (case monitorButton btn' ws of (b, ds, r) \<Rightarrow> (b, cs @ ds, r)))"

text \<open>
  What the loop decides at each wake-up (a press is accepted when the body updates
  \<^verbatim>\<open>lastPress\<close> and dispatches), and the values \<^verbatim>\<open>lastPress\<close> takes.
\<close>

fun decisions_p :: "button_p \<Rightarrow> wake list \<Rightarrow> bool list" where
  "decisions_p btn [] = []"
| "decisions_p btn (w # ws) =
     (case monitor_body btn w of
        Return \<Rightarrow> []
      | Idle \<Rightarrow> False # decisions_p btn ws
      | Press btn' cs \<Rightarrow> True # decisions_p btn' ws)"

fun lastPress_trace_p :: "button_p \<Rightarrow> wake list \<Rightarrow> Time list" where
  "lastPress_trace_p btn [] = [lastPress_p btn]"
| "lastPress_trace_p btn (w # ws) =
     (case monitor_body btn w of
        Return \<Rightarrow> [lastPress_p btn]
      | Idle \<Rightarrow> lastPress_trace_p btn ws
      | Press btn' cs \<Rightarrow> lastPress_p btn # lastPress_trace_p btn' ws)"

subsection \<open>Wake-ups of the running monitors, and Stop\<close>

definition cancel_p :: "ButtonManager_p \<Rightarrow> ButtonManager_p" where
  "cancel_p bm = bm\<lparr>cancelled_p := True\<rparr>"

definition isShuttingDown :: "ButtonManager_p \<Rightarrow> bool" where
  "isShuttingDown bm = cancelled_p bm"

definition wg_Done :: "ButtonManager_p \<Rightarrow> ButtonManager_p" where
  "wg_Done bm = bm\<lparr>wg_p := wg_p bm - 1\<rparr>"

text \<open>
  A wake-up of the \<open>i\<close>-th running monitor. The goroutine finds in its button the value
  \<open>lp\<close> of \<^verbatim>\<open>lastPress\<close> (the button is shared through pointers with the registry and
  with every monitor started on it, so the value is given with the wake-up), and
  \<^verbatim>\<open>isShuttingDown\<close> reads the context of the manager. When the body returns, the deferred
  \<^verbatim>\<open>wg.Done\<close> runs and the goroutine is gone; when it accepts a press, the callback is
  dispatched. The value the goroutine then writes to \<^verbatim>\<open>lastPress\<close> is not kept here: what
  a later wake-up finds there comes with that wake-up, so the runs cover every value the
  shared field can hold, the written ones among them.
\<close>

definition wake_monitor :: "nat \<Rightarrow> Time \<Rightarrow> wake \<Rightarrow> ButtonManager_p \<Rightarrow> ButtonManager_p" where
  "wake_monitor i lp w bm =
     (if i < length (spawned_p bm) then
        (case monitor_body ((spawned_p bm ! i)\<lparr>lastPress_p := lp\<rparr>)
                (w\<lparr>shutting_down := isShuttingDown bm\<rparr>) of
           Return \<Rightarrow>
             wg_Done (bm\<lparr>spawned_p := take i (spawned_p bm) @ drop (Suc i) (spawned_p bm)\<rparr>)
         | Idle \<Rightarrow> bm
         | Press b cs \<Rightarrow> bm\<lparr>dispatched_p := dispatched_p bm @ cs\<rparr>)
      else bm)"

type_synonym wakeup = "nat \<times> Time \<times> wake"

definition deliver :: "wakeup \<Rightarrow> ButtonManager_p \<Rightarrow> ButtonManager_p" where
  "deliver x bm = wake_monitor (fst x) (fst (snd x)) (snd (snd x)) bm"

text \<open>
  \<^verbatim>\<open>Stop\<close> calls \<^verbatim>\<open>cancel\<close> (never nil after \<^verbatim>\<open>NewButtonManager\<close>), waits on the wait
  group and then halts every pin. While it waits, the monitors run: the second argument
  lists the wake-ups that occur during the call. \<^verbatim>\<open>wg.Wait\<close> returns when the counter is zero; \<open>None\<close> is the call blocked in it
  for good, the counter still positive after the last wake-up. The error of \<^verbatim>\<open>Halt\<close> is
  only logged. The order in which a Go map is ranged over is not fixed; the order of the
  association list is one such order.
\<close>

definition wg_Wait :: "ButtonManager_p \<Rightarrow> ButtonManager_p option" where
  "wg_Wait bm = (if wg_p bm = 0 then Some bm else None)"

definition halt_pin :: "string \<times> button_p \<Rightarrow> ButtonManager_p \<Rightarrow> ButtonManager_p" where
  "halt_pin kb bm = bm\<lparr>hw_p := Call_Halt (pin_p (snd kb)) # hw_p bm\<rparr>"

definition haltAllPins :: "ButtonManager_p \<Rightarrow> ButtonManager_p" where
  "haltAllPins bm = fold halt_pin (buttons_p bm) bm"

definition Stop_p :: "ButtonManager_p \<Rightarrow> wakeup list \<Rightarrow> ButtonManager_p option" where
  "Stop_p bm wakes =
     (case wg_Wait (fold deliver wakes (cancel_p bm)) of
        None \<Rightarrow> None
      | Some bm1 \<Rightarrow> Some (haltAllPins bm1))"

text \<open>
  A run of the manager: the calls of its one caller and the wake-ups of the monitors
  between them. The error a call returns is left to the caller; the run ends in \<open>None\<close>
  when a \<^verbatim>\<open>Stop\<close> does not return.
\<close>

datatype call_p =
    Do_AddButton ButtonConfig_p
  | Do_Start
  | Do_Stop "wakeup list"
  | Do_WakeUp wakeup

fun run_p :: "host_p \<Rightarrow> call_p list \<Rightarrow> ButtonManager_p \<Rightarrow> ButtonManager_p option" where
  "run_p host [] bm = Some bm"
| "run_p host (Do_AddButton config # cs) bm = run_p host cs (snd (AddButton_p host bm config))"
| "run_p host (Do_Start # cs) bm = run_p host cs (snd (Start_p bm))"
| "run_p host (Do_Stop wakes # cs) bm =
     (case Stop_p bm wakes of None \<Rightarrow> None | Some bm1 \<Rightarrow> run_p host cs bm1)"
| "run_p host (Do_WakeUp x # cs) bm = run_p host cs (deliver x bm)"

text \<open>
  A pin is held from a call of \<^verbatim>\<open>In\<close> until a call of \<^verbatim>\<open>Halt\<close>; the calls are listed
  most recent first.
\<close>

fun is_open :: "PinIO \<Rightarrow> hw_call_p list \<Rightarrow> bool" where
  "is_open p [] = False"
| "is_open p (Call_In q pull e # hw) = (if p = q then True else is_open p hw)"
| "is_open p (Call_Halt q # hw) = (if p = q then False else is_open p hw)"

section \<open>The push variant (go-gpiocdev)\<close>

text \<open>\<^verbatim>\<open>Pull\<close> is an \<^verbatim>\<open>int\<close> with four named values.\<close>

type_synonym Pull = int

definition PullNoChange :: Pull where "PullNoChange = 0"
definition PullUp :: Pull where "PullUp = 1"
definition PullDown :: Pull where "PullDown = 2"
definition PullDisabled :: Pull where "PullDisabled = 3"

record ButtonConfig_c =
  PinName_c :: string
  Callback_c :: ButtonCallback
  DebounceTime_c :: Duration
  Pull_c :: Pull
  ActiveLow_c :: bool

text \<open>
  The request options of go-gpiocdev that the code uses. \<^verbatim>\<open>WithEventHandler\<close> carries
  the handler closure of the \<^verbatim>\<open>AddButton\<close> call, given by what it captures: the
  configuration after the defaults, \<^verbatim>\<open>chip\<close> and \<^verbatim>\<open>offset\<close>. What the closure does
  with an event is \<open>handler\<close> below.
\<close>

datatype LineReqOption =
    AsInput
  | WithConsumer string
  | WithRisingEdge
  | AsActiveLow
  | WithEventHandler ButtonConfig_c string int
  | WithDebounce Duration
  | WithPullUp
  | WithPullDown
  | WithBiasDisabled

type_synonym Line = nat

record button_c =
  line_c :: "Line option"
  chip_c :: string
  offset_c :: int
  config_c :: ButtonConfig_c
  lastPress_c :: Time

datatype hw_call_c = Call_RequestLine string int "LineReqOption list" | Call_Close Line

text \<open>
  \<^verbatim>\<open>ButtonManager\<close>: the registry and the calls made on the hardware layer, most recent
  first. The context and the wait group of the struct are never used by this variant.
\<close>

record ButtonManager_c =
  buttons_c :: "(string \<times> button_c) list"
  hw_c :: "hw_call_c list"

datatype error_c =
    PinNameRequired
  | InvalidLineOffset string
  | InvalidPinName string
  | FailedToRequestLine string int string
  | NoButtonsConfigured_c

definition NewButtonManager_c :: ButtonManager_c where
  "NewButtonManager_c = \<lparr>buttons_c = [], hw_c = []\<rparr>"

definition pullOption :: "Pull \<Rightarrow> LineReqOption option" where
  "pullOption p =
     (if p = PullUp then Some WithPullUp
      else if p = PullDown then Some WithPullDown
      else if p = PullDisabled then Some WithBiasDisabled
      else None)"

subsection \<open>Parsing the pin name\<close>

text \<open>
  A Go string is a sequence of bytes. \<^verbatim>\<open>strings.TrimSpace\<close> removes the leading and the
  trailing white space runes of the UTF-8 text: the six ASCII ones, U+0085, U+00A0, U+1680,
  U+2000 to U+200A, U+2028, U+2029, U+202F, U+205F and U+3000.
\<close>

definition spaceRunes :: "nat list list" where
  "spaceRunes =
     [[0x09], [0x0A], [0x0B], [0x0C], [0x0D], [0x20],
      [0xC2, 0x85], [0xC2, 0xA0],
      [0xE1, 0x9A, 0x80],
      [0xE2, 0x80, 0x80], [0xE2, 0x80, 0x81], [0xE2, 0x80, 0x82], [0xE2, 0x80, 0x83],
      [0xE2, 0x80, 0x84], [0xE2, 0x80, 0x85], [0xE2, 0x80, 0x86], [0xE2, 0x80, 0x87],
      [0xE2, 0x80, 0x88], [0xE2, 0x80, 0x89], [0xE2, 0x80, 0x8A],
      [0xE2, 0x80, 0xA8], [0xE2, 0x80, 0xA9], [0xE2, 0x80, 0xAF],
      [0xE2, 0x81, 0x9F],
      [0xE3, 0x80, 0x80]]"

definition bytes :: "string \<Rightarrow> nat list" where
  "bytes s = map of_char s"

text \<open>The width of the white space rune a string starts with, or ends with; 0 if none.\<close>

definition leadingSpace :: "string \<Rightarrow> nat" where
  "leadingSpace s =
     (if 1 \<le> length s \<and> take 1 (bytes s) \<in> set spaceRunes then 1
      else if 2 \<le> length s \<and> take 2 (bytes s) \<in> set spaceRunes then 2
      else if 3 \<le> length s \<and> take 3 (bytes s) \<in> set spaceRunes then 3
      else 0)"

definition trailingSpace :: "string \<Rightarrow> nat" where
  "trailingSpace s =
     (if 1 \<le> length s \<and> drop (length s - 1) (bytes s) \<in> set spaceRunes then 1
      else if 2 \<le> length s \<and> drop (length s - 2) (bytes s) \<in> set spaceRunes then 2
      else if 3 \<le> length s \<and> drop (length s - 3) (bytes s) \<in> set spaceRunes then 3
      else 0)"

function TrimLeftSpace :: "string \<Rightarrow> string" where
  "TrimLeftSpace s =
     (if leadingSpace s = 0 then s else TrimLeftSpace (drop (leadingSpace s) s))"
  by pat_completeness auto
termination
  by (relation "measure length") (auto simp: leadingSpace_def split: if_splits)

function TrimRightSpace :: "string \<Rightarrow> string" where
  "TrimRightSpace s =
     (if trailingSpace s = 0 then s
      else TrimRightSpace (take (length s - trailingSpace s) s))"
  by pat_completeness auto
termination
  by (relation "measure length") (auto simp: trailingSpace_def split: if_splits)

definition TrimSpace :: "string \<Rightarrow> string" where
  "TrimSpace s = TrimRightSpace (TrimLeftSpace s)"

text \<open>
  \<^verbatim>\<open>strconv.Atoi\<close> where \<^verbatim>\<open>int\<close> has 64 bits: an optional sign, then one or more decimal
  digits, the value in the range of \<^verbatim>\<open>int\<close>; anything else is an error (\<open>None\<close>).
\<close>

definition isDigit :: "char \<Rightarrow> bool" where
  "isDigit c = (48 \<le> (of_char c :: nat) \<and> (of_char c :: nat) \<le> 57)"

fun digitsValue :: "int \<Rightarrow> string \<Rightarrow> int" where
  "digitsValue n [] = n"
| "digitsValue n (c # cs) = digitsValue (n * 10 + (of_char c - 48)) cs"

definition Atoi :: "string \<Rightarrow> int option" where
  "Atoi s =
     (let neg = (s \<noteq> [] \<and> hd s = CHR ''-'');
          ds = (if s \<noteq> [] \<and> (hd s = CHR ''-'' \<or> hd s = CHR ''+'') then tl s else s)
      in if ds = [] \<or> \<not> list_all isDigit ds then None
         else (let n = (if neg then - digitsValue 0 ds else digitsValue 0 ds)
               in if - (2 ^ 63) \<le> n \<and> n \<le> 2 ^ 63 - 1 then Some n else None))"

text \<open>\<^verbatim>\<open>fmt.Sprintf("%s:%d", chip, offset)\<close>.\<close>

function natToDec :: "nat \<Rightarrow> string" where
  "natToDec n =
     (if n < 10 then [char_of (48 + n)]
      else natToDec (n div 10) @ [char_of (48 + n mod 10)])"
  by pat_completeness auto
termination
  by (relation "measure id") auto

definition Sprintf_chip_offset :: "string \<Rightarrow> int \<Rightarrow> string" where
  "Sprintf_chip_offset chip off =
     chip @ '':'' @ (if off < 0 then CHR ''-'' # natToDec (nat (- off)) else natToDec (nat off))"

text \<open>
  \<^verbatim>\<open>resolveChipLine\<close>. \<^verbatim>\<open>strings.SplitN(p, ":", 2)\<close> cuts at the first colon.
\<close>

definition resolveChipLine :: "string \<Rightarrow> error_c + (string \<times> int)" where
  "resolveChipLine pinName =
     (let p = TrimSpace pinName in
      if p = [] then Inl PinNameRequired
      else if CHR '':'' \<in> set p then
        (let parts0 = takeWhile (\<lambda>c. c \<noteq> CHR '':'') p;
             parts1 = tl (dropWhile (\<lambda>c. c \<noteq> CHR '':'') p)
         in case Atoi parts1 of
              None \<Rightarrow> Inl (InvalidLineOffset parts1)
            | Some off \<Rightarrow> Inr (parts0, off))
      else (case Atoi p of
              None \<Rightarrow> Inl (InvalidPinName p)
            | Some off \<Rightarrow> Inr (''gpiochip0'', off)))"

subsection \<open>The event handler\<close>

text \<open>
  The closure \<^verbatim>\<open>handler\<close> of \<^verbatim>\<open>AddButton\<close>, called by the library on every rising edge
  event of the line. It captures the configuration after the defaults, \<^verbatim>\<open>chip\<close>,
  \<^verbatim>\<open>offset\<close> and the variable \<^verbatim>\<open>last\<close>, which starts as the zero \<^verbatim>\<open>Time\<close>. The
  arguments are the value of \<^verbatim>\<open>last\<close> and the reading of \<^verbatim>\<open>time.Now\<close>; the result is
  the new value of \<^verbatim>\<open>last\<close> and the callbacks called. \<open>burst_guard\<close> is the condition
  of its first \<^verbatim>\<open>if\<close>, under which it returns at once.
\<close>

definition burst_guard :: "ButtonConfig_c \<Rightarrow> Time \<Rightarrow> Time \<Rightarrow> bool" where
  "burst_guard config last_t now =
     (DebounceTime_c config > 0 \<and> \<not> IsZero last_t \<and>
      Sub now last_t \<le> go_quot (DebounceTime_c config) 2)"

definition handler ::
  "ButtonConfig_c \<Rightarrow> string \<Rightarrow> int \<Rightarrow> Time \<Rightarrow> Time \<Rightarrow> Time \<times> invocation list" where
  "handler config chip off last_t now =
     (if burst_guard config last_t now then (last_t, [])
      else (now,
            case Callback_c config of
              None \<Rightarrow> []
            | Some cb \<Rightarrow>
                [(cb, if PinName_c config = [] then Sprintf_chip_offset chip off
                      else PinName_c config)]))"

text \<open>The handler over the events of a line, given by their clock readings.\<close>

fun run_handler ::
  "ButtonConfig_c \<Rightarrow> string \<Rightarrow> int \<Rightarrow> Time \<Rightarrow> Time list \<Rightarrow> Time \<times> invocation list" where
  "run_handler config chip off last_t [] = (last_t, [])"
| "run_handler config chip off last_t (now # nows) =
     (case handler config chip off last_t now of
        (last_t', cs) \<Rightarrow>
          (case run_handler config chip off last_t' nows of (l, ds) \<Rightarrow> (l, cs @ ds)))"

fun decisions_c ::
  "ButtonConfig_c \<Rightarrow> string \<Rightarrow> int \<Rightarrow> Time \<Rightarrow> Time list \<Rightarrow> bool list" where
  "decisions_c config chip off last_t [] = []"
| "decisions_c config chip off last_t (now # nows) =
     (\<not> burst_guard config last_t now) #
       decisions_c config chip off (fst (handler config chip off last_t now)) nows"

fun last_trace_c ::
  "ButtonConfig_c \<Rightarrow> string \<Rightarrow> int \<Rightarrow> Time \<Rightarrow> Time list \<Rightarrow> Time list" where
  "last_trace_c config chip off last_t [] = [last_t]"
| "last_trace_c config chip off last_t (now # nows) =
     last_t # last_trace_c config chip off (fst (handler config chip off last_t now)) nows"

subsection \<open>Registration\<close>

text \<open>The option sets \<^verbatim>\<open>base\<close>, \<^verbatim>\<open>full\<close>, \<^verbatim>\<open>noBias\<close>, \<^verbatim>\<open>noDeb\<close>, \<^verbatim>\<open>baseOnly\<close> and \<^verbatim>\<open>combos\<close>.\<close>

definition base :: "ButtonConfig_c \<Rightarrow> LineReqOption list" where
  "base config =
     [AsInput, WithConsumer ''gpio-buttons-go'', WithRisingEdge] @
     (if ActiveLow_c config then [AsActiveLow] else [])"

definition full :: "ButtonConfig_c \<Rightarrow> string \<Rightarrow> int \<Rightarrow> LineReqOption list" where
  "full config chip off =
     base config @ [WithEventHandler config chip off] @
     (if DebounceTime_c config > 0 then [WithDebounce (DebounceTime_c config)] else []) @
     (case pullOption (Pull_c config) of Some pOpt \<Rightarrow> [pOpt] | None \<Rightarrow> [])"

definition noBias :: "ButtonConfig_c \<Rightarrow> string \<Rightarrow> int \<Rightarrow> LineReqOption list" where
  "noBias config chip off =
     base config @ [WithEventHandler config chip off] @
     (if DebounceTime_c config > 0 then [WithDebounce (DebounceTime_c config)] else [])"

definition noDeb :: "ButtonConfig_c \<Rightarrow> string \<Rightarrow> int \<Rightarrow> LineReqOption list" where
  "noDeb config chip off =
     base config @ [WithEventHandler config chip off] @
     (case pullOption (Pull_c config) of Some pOpt \<Rightarrow> [pOpt] | None \<Rightarrow> [])"

definition baseOnly :: "ButtonConfig_c \<Rightarrow> string \<Rightarrow> int \<Rightarrow> LineReqOption list" where
  "baseOnly config chip off = base config @ [WithEventHandler config chip off]"

definition combos :: "ButtonConfig_c \<Rightarrow> string \<Rightarrow> int \<Rightarrow> LineReqOption list list" where
  "combos config chip off =
     [full config chip off] @
     (case pullOption (Pull_c config) of
        Some pOpt \<Rightarrow> [noBias config chip off]
      | None \<Rightarrow> []) @
     (if DebounceTime_c config > 0 then [noDeb config chip off] else []) @
     [baseOnly config chip off]"

text \<open>The handler closure that a set of request options carries, if any.\<close>

fun handler_of :: "LineReqOption list \<Rightarrow> (ButtonConfig_c \<times> string \<times> int) option" where
  "handler_of [] = None"
| "handler_of (opt # opts) =
     (case opt of
        WithEventHandler config chip off \<Rightarrow> Some (config, chip, off)
      | _ \<Rightarrow> handler_of opts)"

text \<open>
  \<^verbatim>\<open>gpiocdev.RequestLine\<close> is the hardware layer: given chip, offset and options it
  returns an error (\<open>Inl\<close>) or a line. The loop over \<^verbatim>\<open>combos\<close> carries \<^verbatim>\<open>line\<close> and
  \<^verbatim>\<open>reqErr\<close> and the calls made, and breaks at the first request without error.
\<close>

type_synonym RequestLine = "string \<Rightarrow> int \<Rightarrow> LineReqOption list \<Rightarrow> string + Line"

fun request_loop ::
  "RequestLine \<Rightarrow> string \<Rightarrow> int \<Rightarrow> LineReqOption list list \<Rightarrow>
   Line option \<times> string option \<times> hw_call_c list \<Rightarrow>
   Line option \<times> string option \<times> hw_call_c list" where
  "request_loop req chip off [] st = st"
| "request_loop req chip off (opts # rest) (line, reqErr, hw) =
     (case req chip off opts of
        Inr l \<Rightarrow> (Some l, None, Call_RequestLine chip off opts # hw)
      | Inl e \<Rightarrow> request_loop req chip off rest (None, Some e, Call_RequestLine chip off opts # hw))"

definition apply_defaults_c :: "ButtonConfig_c \<Rightarrow> ButtonConfig_c" where
  "apply_defaults_c config =
     (if DebounceTime_c config = 0 then config\<lparr>DebounceTime_c := defaultDebounceTime\<rparr>
      else config)"

definition AddButton_c ::
  "RequestLine \<Rightarrow> ButtonManager_c \<Rightarrow> ButtonConfig_c \<Rightarrow> error_c option \<times> ButtonManager_c" where
  "AddButton_c req bm config0 =
     (let config = apply_defaults_c config0 in
      case resolveChipLine (PinName_c config) of
        Inl err \<Rightarrow> (Some err, bm)
      | Inr (chip, off) \<Rightarrow>
          (case request_loop req chip off (combos config chip off) (None, None, hw_c bm) of
             (line, Some reqErr, hw) \<Rightarrow>
               (Some (FailedToRequestLine chip off reqErr), bm\<lparr>hw_c := hw\<rparr>)
           | (line, None, hw) \<Rightarrow>
               (let btn = \<lparr>line_c = line, chip_c = chip, offset_c = off,
                           config_c = config, lastPress_c = 0\<rparr>;
                    key = (if PinName_c config = [] then Sprintf_chip_offset chip off
                           else PinName_c config)
                in (None, bm\<lparr>buttons_c := AList.update key btn (buttons_c bm), hw_c := hw\<rparr>))))"

definition Start_c :: "ButtonManager_c \<Rightarrow> error_c option \<times> ButtonManager_c" where
  "Start_c bm =
     (if length (buttons_c bm) = 0 then (Some NoButtonsConfigured_c, bm) else (None, bm))"

text \<open>\<^verbatim>\<open>Stop\<close> closes every line of the registry; the error of \<^verbatim>\<open>Close\<close> is only logged.\<close>

definition close_line :: "string \<times> button_c \<Rightarrow> ButtonManager_c \<Rightarrow> ButtonManager_c" where
  "close_line kb bm =
     (case line_c (snd kb) of
        None \<Rightarrow> bm
      | Some l \<Rightarrow> bm\<lparr>hw_c := Call_Close l # hw_c bm\<rparr>)"

definition Stop_c :: "ButtonManager_c \<Rightarrow> ButtonManager_c" where
  "Stop_c bm = fold close_line (buttons_c bm) bm"

definition GetButtonCount_c :: "ButtonManager_c \<Rightarrow> nat" where
  "GetButtonCount_c bm = length (buttons_c bm)"

section \<open>The specification's words, and inputs for the examples\<close>

text \<open>
  The Debounce Gate as the specification words it: \<^verbatim>\<open>consider(now, window)\<close> accepts iff
  \<^verbatim>\<open>now - last_accepted > window\<close>, and on accept sets \<^verbatim>\<open>last_accepted = now\<close>.
\<close>

fun spec_consider :: "Duration \<Rightarrow> Time \<Rightarrow> Time list \<Rightarrow> bool list" where
  "spec_consider window last_accepted [] = []"
| "spec_consider window last_accepted (now # nows) =
     (if now - last_accepted > window then True # spec_consider window now nows
      else False # spec_consider window last_accepted nows)"

text \<open>
  A candidate press of the poll variant at clock reading \<open>t\<close>: an edge, no shutdown, the
  level read is low, and both clock readings are \<open>t\<close>.
\<close>

definition press_at :: "Time \<Rightarrow> wake" where
  "press_at t =
     \<lparr>edge = True, shutting_down = False, level = gpio_Low, now_check = t, now_update = t\<rparr>"

text \<open>
  A candidate press of the poll variant whose two clock readings are kept apart: \<open>c\<close> is
  the reading of \<^verbatim>\<open>time.Since\<close> in the debounce check, \<open>u\<close> the reading of \<^verbatim>\<open>time.Now\<close>
  that \<^verbatim>\<open>updateLastPress\<close> stores. The gate these two readings make: a candidate is
  accepted iff \<open>c - last_accepted > window\<close>, and \<open>last_accepted\<close> is then \<open>u\<close>.
\<close>

definition press_wake :: "Time \<Rightarrow> Time \<Rightarrow> wake" where
  "press_wake c u =
     \<lparr>edge = True, shutting_down = False, level = gpio_Low, now_check = c, now_update = u\<rparr>"

fun gate_two_readings :: "Duration \<Rightarrow> Time \<Rightarrow> (Time \<times> Time) list \<Rightarrow> bool list" where
  "gate_two_readings window last_accepted [] = []"
| "gate_two_readings window last_accepted ((c, u) # ps) =
     (if c - last_accepted > window then True # gate_two_readings window u ps
      else False # gate_two_readings window last_accepted ps)"

text \<open>
  The specification's \<^verbatim>\<open>PinNotFound\<close>: the errors with which the identifier fails to
  resolve, \<^verbatim>\<open>gpioreg.ByName\<close> returning nil and the errors of \<^verbatim>\<open>resolveChipLine\<close>.
  The error "failed to request line" wraps the cause of a refused request, as the
  specification's \<^verbatim>\<open>PinConfigurationFailed\<close> does.
\<close>

fun is_PinNotFound_p :: "error_p \<Rightarrow> bool" where
  "is_PinNotFound_p (FailedToFindPin n) = True"
| "is_PinNotFound_p (FailedToConfigurePin n e) = False"
| "is_PinNotFound_p NoButtonsConfigured_p = False"

fun is_PinNotFound_c :: "error_c \<Rightarrow> bool" where
  "is_PinNotFound_c PinNameRequired = True"
| "is_PinNotFound_c (InvalidLineOffset s) = True"
| "is_PinNotFound_c (InvalidPinName s) = True"
| "is_PinNotFound_c (FailedToRequestLine c off e) = False"
| "is_PinNotFound_c NoButtonsConfigured_c = False"

text \<open>
  Hardware layers for the examples: a host without pins, a host whose only pin is
  \<^verbatim>\<open>GPIO1_A0\<close> and accepts every configuration, and a chip that grants every request.
\<close>

definition no_pins :: host_p where
  "no_pins = \<lparr>ByName = (\<lambda>name. None), In_err = (\<lambda>pin pull e. None),
               gpio_PullNoChange = 0\<rparr>"

definition one_pin :: host_p where
  "one_pin = \<lparr>ByName = (\<lambda>name. if name = ''GPIO1_A0'' then Some 0 else None),
              In_err = (\<lambda>pin pull e. None), gpio_PullNoChange = 0\<rparr>"

definition accept_all :: RequestLine where
  "accept_all chip off opts = Inr 0"

text \<open>A host without GPIO lines: every request is refused.\<close>

definition no_lines :: RequestLine where
  "no_lines chip off opts = Inl ''no such file or directory''"

text \<open>A chip that refuses every request with a debounce or a bias option.\<close>

definition bare_only :: RequestLine where
  "bare_only chip off opts =
     (if list_ex (\<lambda>opt. case opt of WithDebounce d \<Rightarrow> True | WithPullUp \<Rightarrow> True
                        | WithPullDown \<Rightarrow> True | WithBiasDisabled \<Rightarrow> True | _ \<Rightarrow> False) opts
      then Inl ''operation not supported'' else Inr 0)"

text \<open>
  The classification of a level as the specification words it: pressed means low on an
  active-low button and high on an active-high one.
\<close>

definition spec_pressed :: "bool \<Rightarrow> gpio_Level \<Rightarrow> bool" where
  "spec_pressed active_low lv = (if active_low then lv = gpio_Low else lv = gpio_High)"

text \<open>The clock readings of a run of the poll variant's loop, in the order they are taken.\<close>

definition clock_readings :: "wake list \<Rightarrow> Time list" where
  "clock_readings ws = concat (map (\<lambda>w. [now_check w, now_update w]) ws)"

text \<open>The counter of the wait group is the number of running monitors.\<close>

definition wg_counts :: "ButtonManager_p \<Rightarrow> bool" where
  "wg_counts bm = (wg_p bm = length (spawned_p bm))"

section \<open>Properties\<close>

subsection \<open>Durations\<close>

lemma Sub_gt_iff:
  "is_Duration w \<Longrightarrow> w < maxDuration \<Longrightarrow> (Sub t u > w) = (t - u > w)"
  by (auto simp: Sub_def is_Duration_def)

lemma Sub_le_half_iff:
  "is_Duration w \<Longrightarrow> 0 < w \<Longrightarrow> (Sub t u \<le> go_quot w 2) = (t - u \<le> w div 2)"
  by (auto simp: Sub_def is_Duration_def go_quot_def minDuration_def maxDuration_def)

subsection \<open>The debounce gate\<close>

lemma monitor_body_press_at:
  "monitor_body btn (press_at t) =
     (if Sub t (lastPress_p btn) > DebounceTime_p (config_p btn)
      then Press (updateLastPress btn t) (invokeCallback (updateLastPress btn t)) else Idle)"
  by (simp add: monitor_body_def press_at_def isPressed_def isDebouncePassed_def Since_def
      Let_def)

lemma decisions_p_spec:
  "is_Duration (DebounceTime_p (config_p btn)) \<Longrightarrow>
   DebounceTime_p (config_p btn) < maxDuration \<Longrightarrow>
   decisions_p btn (map press_at ts) =
     spec_consider (DebounceTime_p (config_p btn)) (lastPress_p btn) ts"
proof (induction ts arbitrary: btn)
  case Nil
  then show ?case by simp
next
  case (Cons t ts)
  show ?case
  proof (cases "Sub t (lastPress_p btn) > DebounceTime_p (config_p btn)")
    case True
    have c: "config_p (updateLastPress btn t) = config_p btn"
      "lastPress_p (updateLastPress btn t) = t"
      by (simp_all add: updateLastPress_def)
    from True Cons.prems have "t - lastPress_p btn > DebounceTime_p (config_p btn)"
      by (simp add: Sub_gt_iff)
    with True Cons.IH[of "updateLastPress btn t"] Cons.prems c show ?thesis
      by (simp add: monitor_body_press_at)
  next
    case False
    with Cons.prems have "\<not> t - lastPress_p btn > DebounceTime_p (config_p btn)"
      by (simp add: Sub_gt_iff)
    with False Cons.IH[of btn] Cons.prems show ?thesis
      by (simp add: monitor_body_press_at)
  qed
qed

lemma burst_guard_iff:
  "is_Duration (DebounceTime_c config) \<Longrightarrow>
   (\<not> burst_guard config last_t now) =
     (DebounceTime_c config \<le> 0 \<or> last_t = 0 \<or> now - last_t > DebounceTime_c config div 2)"
  by (auto simp: burst_guard_def IsZero_def Sub_le_half_iff)

lemma spec_consider_zero:
  "sorted_wrt (<) (l # ts) \<Longrightarrow> spec_consider 0 l ts = replicate (length ts) True"
  by (induction ts arbitrary: l) auto

lemma decisions_c_nonpositive:
  "DebounceTime_c config \<le> 0 \<Longrightarrow>
   decisions_c config chip off last_t ts = replicate (length ts) True"
  by (induction ts arbitrary: last_t) (auto simp: burst_guard_def)

lemma is_Duration_0: "is_Duration 0"
  by (simp add: is_Duration_def minDuration_def maxDuration_def)

subsection \<open>Registration and start\<close>

lemma PinName_apply_defaults_p [simp]: "PinName_p (apply_defaults_p host cfg) = PinName_p cfg"
  by (simp add: apply_defaults_p_def Let_def)

lemma PinName_apply_defaults_c [simp]: "PinName_c (apply_defaults_c cfg) = PinName_c cfg"
  by (simp add: apply_defaults_c_def)

lemma AddButton_p_not_found:
  "ByName host (PinName_p cfg) = None \<Longrightarrow>
   AddButton_p host bm cfg = (Some (FailedToFindPin (PinName_p cfg)), bm)"
  by (simp add: AddButton_p_def Let_def)

lemma AddButton_c_unresolved:
  "resolveChipLine (PinName_c cfg) = Inl e \<Longrightarrow> AddButton_c req bm cfg = (Some e, bm)"
  by (simp add: AddButton_c_def Let_def)

lemma resolveChipLine_errors: "resolveChipLine n = Inl e \<Longrightarrow> is_PinNotFound_c e"
  by (auto simp: resolveChipLine_def Let_def split: if_splits option.splits)

lemma AddButton_p_error_registry:
  "fst (AddButton_p host bm cfg) \<noteq> None \<Longrightarrow>
   buttons_p (snd (AddButton_p host bm cfg)) = buttons_p bm"
  by (auto simp: AddButton_p_def Let_def split: option.splits)

lemma AddButton_c_error_registry:
  "fst (AddButton_c req bm cfg) \<noteq> None \<Longrightarrow>
   buttons_c (snd (AddButton_c req bm cfg)) = buttons_c bm"
  by (auto simp: AddButton_c_def Let_def split: option.splits sum.splits prod.splits)

lemma fold_spawn_buttons: "buttons_p (fold spawn_monitor xs bm) = buttons_p bm"
  by (induction xs arbitrary: bm) (auto simp: spawn_monitor_def)

lemma fold_spawn_wg: "wg_p (fold spawn_monitor xs bm) = wg_p bm + length xs"
  by (induction xs arbitrary: bm) (auto simp: spawn_monitor_def)

lemma Start_p_buttons: "buttons_p (snd (Start_p bm)) = buttons_p bm"
  by (simp add: Start_p_def fold_spawn_buttons)

lemma Start_p_wg: "wg_p (snd (Start_p bm)) = wg_p bm + length (buttons_p bm)"
  by (simp add: Start_p_def fold_spawn_wg)

lemma resolve_abc: "resolveChipLine ''abc'' = Inl (InvalidPinName ''abc'')"
  by code_simp

lemma resolve_23: "resolveChipLine ''23'' = Inr (''gpiochip0'', 23)"
  by code_simp

text \<open>
  Claim C4, as the code has it. \<^verbatim>\<open>Start\<close> returns the error "no buttons configured" iff
  the registry is empty and no error otherwise; a second call returns what the first
  returned, and in the poll variant it starts one more monitor for every button.
\<close>

theorem start_error_iff_empty:
  "(fst (Start_p bm) = Some NoButtonsConfigured_p) = (GetButtonCount_p bm = 0) \<and>
   (fst (Start_p bm) = None) = (GetButtonCount_p bm \<noteq> 0) \<and>
   fst (Start_p (snd (Start_p bm))) = fst (Start_p bm) \<and>
   wg_p (snd (Start_p (snd (Start_p bm)))) = wg_p bm + 2 * GetButtonCount_p bm \<and>
   (fst (Start_c bmc) = Some NoButtonsConfigured_c) = (GetButtonCount_c bmc = 0) \<and>
   (fst (Start_c bmc) = None) = (GetButtonCount_c bmc \<noteq> 0) \<and>
   Start_c (snd (Start_c bmc)) = Start_c bmc"
  by (simp add: Start_p_wg Start_p_buttons GetButtonCount_p_def GetButtonCount_c_def)
     (simp add: Start_p_def Start_c_def fold_spawn_buttons)

text \<open>
  Claim C4 as stated fails: after one button is registered, the second \<^verbatim>\<open>Start\<close> returns
  no error, in both variants.
\<close>

theorem second_start_counterexample:
  "fst (Start_p (snd (Start_p (snd (AddButton_p one_pin NewButtonManager_p
     \<lparr>PinName_p = ''GPIO1_A0'', Callback_p = Some 0, DebounceTime_p = 0,
      Pull_p = 0\<rparr>))))) = None \<and>
   fst (Start_c (snd (Start_c (snd (AddButton_c accept_all NewButtonManager_c
     \<lparr>PinName_c = ''23'', Callback_c = Some 0, DebounceTime_c = 0, Pull_c = PullUp,
      ActiveLow_c = True\<rparr>))))) = None"
  by (simp add: Start_p_def Start_c_def fold_spawn_buttons AddButton_p_def AddButton_c_def
      one_pin_def accept_all_def NewButtonManager_p_def NewButtonManager_c_def Let_def
      resolve_23 combos_def spawn_monitor_def)

subsection \<open>The fallback loop of the push variant\<close>

lemma request_loop_all_fail:
  "cs \<noteq> [] \<Longrightarrow> \<forall>opts \<in> set cs. isl (req chip off opts) \<Longrightarrow>
   request_loop req chip off cs (l0, e0, hw) =
     (None, Some (projl (req chip off (last cs))), rev (map (Call_RequestLine chip off) cs) @ hw)"
proof (induction cs arbitrary: l0 e0 hw)
  case Nil
  then show ?case by simp
next
  case (Cons c cs)
  then obtain e where e: "req chip off c = Inl e" by (cases "req chip off c") auto
  show ?case
  proof (cases "cs = []")
    case True
    with e show ?thesis by simp
  next
    case False
    with Cons e show ?thesis by simp
  qed
qed

lemma request_loop_first_success:
  "\<forall>opts \<in> set fs. isl (req chip off opts) \<Longrightarrow> req chip off c = Inr l \<Longrightarrow>
   request_loop req chip off (fs @ c # rest) (l0, e0, hw) =
     (Some l, None, rev (map (Call_RequestLine chip off) (fs @ [c])) @ hw)"
proof (induction fs arbitrary: l0 e0 hw)
  case Nil
  then show ?case by simp
next
  case (Cons f fs)
  then obtain e where e: "req chip off f = Inl e" by (cases "req chip off f") auto
  with Cons show ?case by simp
qed

lemma split_first_success:
  "\<exists>opts \<in> set cs. \<not> isl (req chip off opts) \<Longrightarrow>
   cs = takeWhile (\<lambda>opts. isl (req chip off opts)) cs @
        hd (dropWhile (\<lambda>opts. isl (req chip off opts)) cs) #
        tl (dropWhile (\<lambda>opts. isl (req chip off opts)) cs) \<and>
   \<not> isl (req chip off (hd (dropWhile (\<lambda>opts. isl (req chip off opts)) cs)))"
  by (metis (mono_tags, lifting) dropWhile_eq_Nil_conv hd_dropWhile list.collapse takeWhile_dropWhile_id)

lemma combos_nonempty: "combos config chip off \<noteq> []"
  by (simp add: combos_def)

lemma last_combos: "last (combos config chip off) = baseOnly config chip off"
  by (simp add: combos_def)

lemma combos_four:
  "pullOption (Pull_c config) = Some pOpt \<Longrightarrow> DebounceTime_c config > 0 \<Longrightarrow>
   combos config chip off =
     [base config @ [WithEventHandler config chip off, WithDebounce (DebounceTime_c config), pOpt],
      base config @ [WithEventHandler config chip off, WithDebounce (DebounceTime_c config)],
      base config @ [WithEventHandler config chip off, pOpt],
      base config @ [WithEventHandler config chip off]]"
  by (simp add: combos_def full_def noBias_def noDeb_def baseOnly_def)

lemma handler_of_base:
  "handler_of (base config @ WithEventHandler c ch ofs # rest) = Some (c, ch, ofs)"
  by (simp add: base_def)

lemma combos_handler:
  "opts \<in> set (combos config chip off) \<Longrightarrow> handler_of opts = Some (config, chip, off)"
  by (auto simp: combos_def full_def noBias_def noDeb_def baseOnly_def handler_of_base
      split: option.splits if_splits)

lemma TrimSpace_Nil: "TrimSpace [] = []"
proof -
  have "leadingSpace [] = 0" "trailingSpace [] = 0"
    by (simp_all add: leadingSpace_def trailingSpace_def)
  then show ?thesis
    by (simp add: TrimSpace_def TrimLeftSpace.simps[of "[]"] TrimRightSpace.simps[of "[]"])
qed

lemma resolveChipLine_Nil: "resolveChipLine [] = Inl PinNameRequired"
  by (simp add: resolveChipLine_def TrimSpace_Nil)

lemma resolveChipLine_nonempty: "resolveChipLine n = Inr x \<Longrightarrow> n \<noteq> []"
  using resolveChipLine_Nil by auto

lemma AddButton_c_all_fail:
  assumes r: "resolveChipLine (PinName_c config0) = Inr (chip, off)"
    and f: "\<forall>opts \<in> set (combos (apply_defaults_c config0) chip off). isl (req chip off opts)"
  shows "AddButton_c req bm config0 =
           (Some (FailedToRequestLine chip off
                    (projl (req chip off (baseOnly (apply_defaults_c config0) chip off)))),
            bm\<lparr>hw_c := rev (map (Call_RequestLine chip off) (combos (apply_defaults_c config0) chip off))
                        @ hw_c bm\<rparr>)"
  using r f combos_nonempty[of "apply_defaults_c config0" chip off]
    request_loop_all_fail[where req = req and chip = chip and off = off
      and cs = "combos (apply_defaults_c config0) chip off" and ?l0.0 = None and ?e0.0 = None
      and hw = "hw_c bm"]
  by (simp add: AddButton_c_def Let_def last_combos)

lemma AddButton_c_success:
  assumes r: "resolveChipLine (PinName_c config0) = Inr (chip, off)"
    and c: "combos (apply_defaults_c config0) chip off = fs @ won # rest"
    and f: "\<forall>opts \<in> set fs. isl (req chip off opts)"
    and w: "req chip off won = Inr l"
  shows "AddButton_c req bm config0 =
           (None,
            bm\<lparr>buttons_c :=
                  AList.update (PinName_c config0)
                    \<lparr>line_c = Some l, chip_c = chip, offset_c = off,
                     config_c = apply_defaults_c config0, lastPress_c = 0\<rparr>
                    (buttons_c bm),
                hw_c := rev (map (Call_RequestLine chip off) (fs @ [won])) @ hw_c bm\<rparr>)"
proof -
  have n: "PinName_c config0 \<noteq> []" using r resolveChipLine_nonempty by blast
  show ?thesis
    using r n f w c
      request_loop_first_success[where req = req and chip = chip and off = off and fs = fs
        and c = won and l = l and rest = rest and ?l0.0 = None and ?e0.0 = None
        and hw = "hw_c bm"]
    by (simp add: AddButton_c_def Let_def)
qed

lemma AddButton_c_ok_iff:
  assumes r: "resolveChipLine (PinName_c config0) = Inr (chip, off)"
  shows "(fst (AddButton_c req bm config0) = None) =
         (\<exists>opts \<in> set (combos (apply_defaults_c config0) chip off). \<not> isl (req chip off opts))"
proof (cases "\<exists>opts \<in> set (combos (apply_defaults_c config0) chip off). \<not> isl (req chip off opts)")
  case True
  let ?cs = "combos (apply_defaults_c config0) chip off"
  let ?P = "\<lambda>opts. isl (req chip off opts)"
  from True split_first_success[where cs = ?cs and req = req and chip = chip and off = off]
  have s: "?cs = takeWhile ?P ?cs @ hd (dropWhile ?P ?cs) # tl (dropWhile ?P ?cs)"
    and w: "\<not> isl (req chip off (hd (dropWhile ?P ?cs)))" by auto
  from w obtain l where l: "req chip off (hd (dropWhile ?P ?cs)) = Inr l"
    by (cases "req chip off (hd (dropWhile ?P ?cs))") auto
  have f: "\<forall>opts \<in> set (takeWhile ?P ?cs). isl (req chip off opts)"
    by (auto dest: set_takeWhileD)
  from AddButton_c_success[where fs = "takeWhile ?P ?cs" and won = "hd (dropWhile ?P ?cs)"
      and rest = "tl (dropWhile ?P ?cs)" and req = req and bm = bm, OF r s f l] True
  show ?thesis by simp
next
  case False
  then have "\<forall>opts \<in> set (combos (apply_defaults_c config0) chip off). isl (req chip off opts)" by blast
  from AddButton_c_all_fail[where req = req and bm = bm, OF r this] False
  show ?thesis by simp
qed

lemma AddButton_c_granted:
  assumes ok: "fst (AddButton_c req bm cfg) = None"
  shows "\<exists>chip off won l rest.
           resolveChipLine (PinName_c cfg) = Inr (chip, off) \<and>
           won \<in> set (combos (apply_defaults_c cfg) chip off) \<and>
           req chip off won = Inr l \<and>
           hw_c (snd (AddButton_c req bm cfg)) = Call_RequestLine chip off won # rest \<and>
           map_of (buttons_c (snd (AddButton_c req bm cfg))) (PinName_c cfg) =
             Some \<lparr>line_c = Some l, chip_c = chip, offset_c = off,
                   config_c = apply_defaults_c cfg, lastPress_c = 0\<rparr>"
proof -
  from ok obtain chip off where r: "resolveChipLine (PinName_c cfg) = Inr (chip, off)"
    by (cases "resolveChipLine (PinName_c cfg)") (auto simp: AddButton_c_def Let_def)
  let ?cs = "combos (apply_defaults_c cfg) chip off"
  let ?P = "\<lambda>opts. isl (req chip off opts)"
  from ok AddButton_c_ok_iff[OF r, of req bm]
  have e: "\<exists>opts \<in> set ?cs. \<not> isl (req chip off opts)" by simp
  from e split_first_success[where cs = ?cs and req = req and chip = chip and off = off]
  have s: "?cs = takeWhile ?P ?cs @ hd (dropWhile ?P ?cs) # tl (dropWhile ?P ?cs)"
    and w: "\<not> isl (req chip off (hd (dropWhile ?P ?cs)))" by auto
  from w obtain l where l: "req chip off (hd (dropWhile ?P ?cs)) = Inr l"
    by (cases "req chip off (hd (dropWhile ?P ?cs))") auto
  have f: "\<forall>opts \<in> set (takeWhile ?P ?cs). isl (req chip off opts)"
    by (auto dest: set_takeWhileD)
  have m: "hd (dropWhile ?P ?cs) \<in> set ?cs"
    by (metis s in_set_conv_decomp)
  note a = AddButton_c_success[where fs = "takeWhile ?P ?cs" and won = "hd (dropWhile ?P ?cs)"
      and rest = "tl (dropWhile ?P ?cs)" and req = req and bm = bm, OF r s f l]
  have h: "hw_c (snd (AddButton_c req bm cfg)) =
             Call_RequestLine chip off (hd (dropWhile ?P ?cs)) #
               (rev (map (Call_RequestLine chip off) (takeWhile ?P ?cs)) @ hw_c bm)"
    by (simp add: a)
  have b: "map_of (buttons_c (snd (AddButton_c req bm cfg))) (PinName_c cfg) =
             Some \<lparr>line_c = Some l, chip_c = chip, offset_c = off,
                   config_c = apply_defaults_c cfg, lastPress_c = 0\<rparr>"
    by (simp add: a update_conv')
  from r m l h b show ?thesis by blast
qed

lemma handler_accepts:
  assumes d: "0 < DebounceTime_c config" and n: "PinName_c config \<noteq> []"
  shows "handler config chip off last_t now =
           (if last_t \<noteq> 0 \<and> Sub now last_t \<le> go_quot (DebounceTime_c config) 2
            then (last_t, [])
            else (now, case Callback_c config of
                         None \<Rightarrow> []
                       | Some cb \<Rightarrow> [(cb, PinName_c config)]))"
  using d n by (simp add: handler_def burst_guard_def IsZero_def)

lemma AddButton_c_bare_example:
  "AddButton_c bare_only NewButtonManager_c
     \<lparr>PinName_c = ''23'', Callback_c = Some 0, DebounceTime_c = 0, Pull_c = PullUp,
      ActiveLow_c = True\<rparr> =
     (None,
      \<lparr>buttons_c =
         [(''23'',
           \<lparr>line_c = Some 0, chip_c = ''gpiochip0'', offset_c = 23,
            config_c = \<lparr>PinName_c = ''23'', Callback_c = Some 0,
                        DebounceTime_c = 50 * Millisecond, Pull_c = PullUp,
                        ActiveLow_c = True\<rparr>,
            lastPress_c = 0\<rparr>)],
       hw_c =
         [Call_RequestLine ''gpiochip0'' 23
            [AsInput, WithConsumer ''gpio-buttons-go'', WithRisingEdge, AsActiveLow,
             WithEventHandler
               \<lparr>PinName_c = ''23'', Callback_c = Some 0, DebounceTime_c = 50 * Millisecond,
                Pull_c = PullUp, ActiveLow_c = True\<rparr> ''gpiochip0'' 23],
          Call_RequestLine ''gpiochip0'' 23
            [AsInput, WithConsumer ''gpio-buttons-go'', WithRisingEdge, AsActiveLow,
             WithEventHandler
               \<lparr>PinName_c = ''23'', Callback_c = Some 0, DebounceTime_c = 50 * Millisecond,
                Pull_c = PullUp, ActiveLow_c = True\<rparr> ''gpiochip0'' 23,
             WithPullUp],
          Call_RequestLine ''gpiochip0'' 23
            [AsInput, WithConsumer ''gpio-buttons-go'', WithRisingEdge, AsActiveLow,
             WithEventHandler
               \<lparr>PinName_c = ''23'', Callback_c = Some 0, DebounceTime_c = 50 * Millisecond,
                Pull_c = PullUp, ActiveLow_c = True\<rparr> ''gpiochip0'' 23,
             WithDebounce (50 * Millisecond)],
          Call_RequestLine ''gpiochip0'' 23
            [AsInput, WithConsumer ''gpio-buttons-go'', WithRisingEdge, AsActiveLow,
             WithEventHandler
               \<lparr>PinName_c = ''23'', Callback_c = Some 0, DebounceTime_c = 50 * Millisecond,
                Pull_c = PullUp, ActiveLow_c = True\<rparr> ''gpiochip0'' 23,
             WithDebounce (50 * Millisecond), WithPullUp]]\<rparr>)"
  by (simp add: AddButton_c_def bare_only_def NewButtonManager_c_def apply_defaults_c_def
      defaultDebounceTime_def Let_def resolve_23 combos_def full_def noBias_def noDeb_def
      baseOnly_def base_def pullOption_def PullNoChange_def PullUp_def PullDown_def
      PullDisabled_def Millisecond_def)

text \<open>
  Claim C6, as the code has it. When a bias is requested and the window is not negative,
  \<^verbatim>\<open>AddButton\<close> of the push variant requests the line with four option sets in this order:
  debounce and bias, debounce without bias, bias without debounce, neither. Every set
  carries the same handler closure, the one of the configuration after the defaults. The
  loop stops at the first request that is granted and stores the button with that line; it
  returns the error "failed to request line" only when all four requests are refused. The
  handler of the stored button drops an event only when a press has been accepted before
  and the event is at most half the window after it: when the granted set is one without
  \<^verbatim>\<open>WithDebounce\<close>, that half-window guard is all the debounce the button has.
\<close>

theorem fallback_order_and_result:
  "pullOption (Pull_c config0) = Some pOpt \<and> 0 \<le> DebounceTime_c config0 \<and>
   resolveChipLine (PinName_c config0) = Inr (chip, off) \<longrightarrow>
   combos (apply_defaults_c config0) chip off =
     [base (apply_defaults_c config0) @
        [WithEventHandler (apply_defaults_c config0) chip off,
         WithDebounce (DebounceTime_c (apply_defaults_c config0)), pOpt],
      base (apply_defaults_c config0) @
        [WithEventHandler (apply_defaults_c config0) chip off,
         WithDebounce (DebounceTime_c (apply_defaults_c config0))],
      base (apply_defaults_c config0) @
        [WithEventHandler (apply_defaults_c config0) chip off, pOpt],
      base (apply_defaults_c config0) @
        [WithEventHandler (apply_defaults_c config0) chip off]] \<and>
   (\<forall>opts \<in> set (combos (apply_defaults_c config0) chip off).
      handler_of opts = Some (apply_defaults_c config0, chip, off)) \<and>
   (fst (AddButton_c req bm config0) = None) =
     (\<exists>opts \<in> set (combos (apply_defaults_c config0) chip off). \<not> isl (req chip off opts)) \<and>
   ((\<forall>opts \<in> set (combos (apply_defaults_c config0) chip off). isl (req chip off opts)) \<longrightarrow>
      AddButton_c req bm config0 =
        (Some (FailedToRequestLine chip off
                 (projl (req chip off (baseOnly (apply_defaults_c config0) chip off)))),
         bm\<lparr>hw_c := rev (map (Call_RequestLine chip off) (combos (apply_defaults_c config0) chip off))
                     @ hw_c bm\<rparr>)) \<and>
   (\<forall>fs won rest l.
      combos (apply_defaults_c config0) chip off = fs @ won # rest \<and>
      (\<forall>opts \<in> set fs. isl (req chip off opts)) \<and> req chip off won = Inr l \<longrightarrow>
      AddButton_c req bm config0 =
        (None,
         bm\<lparr>buttons_c :=
               AList.update (PinName_c config0)
                 \<lparr>line_c = Some l, chip_c = chip, offset_c = off,
                  config_c = apply_defaults_c config0, lastPress_c = 0\<rparr>
                 (buttons_c bm),
             hw_c := rev (map (Call_RequestLine chip off) (fs @ [won])) @ hw_c bm\<rparr>)) \<and>
   handler (apply_defaults_c config0) chip off last_t now =
     (if last_t \<noteq> 0 \<and>
         Sub now last_t \<le> go_quot (DebounceTime_c (apply_defaults_c config0)) 2
      then (last_t, [])
      else (now, case Callback_c config0 of
                   None \<Rightarrow> []
                 | Some cb \<Rightarrow> [(cb, PinName_c config0)]))"
proof (intro impI, elim conjE)
  assume p: "pullOption (Pull_c config0) = Some pOpt" and d: "0 \<le> DebounceTime_c config0"
    and r: "resolveChipLine (PinName_c config0) = Inr (chip, off)"
  have p': "pullOption (Pull_c (apply_defaults_c config0)) = Some pOpt"
    using p by (simp add: apply_defaults_c_def)
  have d': "DebounceTime_c (apply_defaults_c config0) > 0"
    using d by (simp add: apply_defaults_c_def defaultDebounceTime_def Millisecond_def)
  have n: "PinName_c (apply_defaults_c config0) \<noteq> []"
    using r resolveChipLine_nonempty by auto
  have cb: "Callback_c (apply_defaults_c config0) = Callback_c config0"
    by (simp add: apply_defaults_c_def)
  have c1: "combos (apply_defaults_c config0) chip off =
     [base (apply_defaults_c config0) @
        [WithEventHandler (apply_defaults_c config0) chip off,
         WithDebounce (DebounceTime_c (apply_defaults_c config0)), pOpt],
      base (apply_defaults_c config0) @
        [WithEventHandler (apply_defaults_c config0) chip off,
         WithDebounce (DebounceTime_c (apply_defaults_c config0))],
      base (apply_defaults_c config0) @
        [WithEventHandler (apply_defaults_c config0) chip off, pOpt],
      base (apply_defaults_c config0) @
        [WithEventHandler (apply_defaults_c config0) chip off]]"
    using combos_four[OF p' d'] .
  have c2: "\<forall>opts \<in> set (combos (apply_defaults_c config0) chip off).
      handler_of opts = Some (apply_defaults_c config0, chip, off)"
    using combos_handler by blast
  have c3: "(fst (AddButton_c req bm config0) = None) =
     (\<exists>opts \<in> set (combos (apply_defaults_c config0) chip off). \<not> isl (req chip off opts))"
    using AddButton_c_ok_iff[OF r] .
  have c4: "(\<forall>opts \<in> set (combos (apply_defaults_c config0) chip off). isl (req chip off opts)) \<longrightarrow>
      AddButton_c req bm config0 =
        (Some (FailedToRequestLine chip off
                 (projl (req chip off (baseOnly (apply_defaults_c config0) chip off)))),
         bm\<lparr>hw_c := rev (map (Call_RequestLine chip off) (combos (apply_defaults_c config0) chip off))
                     @ hw_c bm\<rparr>)"
    using AddButton_c_all_fail[where req = req and bm = bm, OF r] by blast
  have c5: "\<forall>fs won rest l.
      combos (apply_defaults_c config0) chip off = fs @ won # rest \<and>
      (\<forall>opts \<in> set fs. isl (req chip off opts)) \<and> req chip off won = Inr l \<longrightarrow>
      AddButton_c req bm config0 =
        (None,
         bm\<lparr>buttons_c :=
               AList.update (PinName_c config0)
                 \<lparr>line_c = Some l, chip_c = chip, offset_c = off,
                  config_c = apply_defaults_c config0, lastPress_c = 0\<rparr>
                 (buttons_c bm),
             hw_c := rev (map (Call_RequestLine chip off) (fs @ [won])) @ hw_c bm\<rparr>)"
  proof (intro allI impI, elim conjE)
    fix fs won rest l
    assume c: "combos (apply_defaults_c config0) chip off = fs @ won # rest"
      and f: "\<forall>opts \<in> set fs. isl (req chip off opts)"
      and w: "req chip off won = Inr l"
    from AddButton_c_success[where req = req and bm = bm, OF r c f w]
    show "AddButton_c req bm config0 =
        (None,
         bm\<lparr>buttons_c :=
               AList.update (PinName_c config0)
                 \<lparr>line_c = Some l, chip_c = chip, offset_c = off,
                  config_c = apply_defaults_c config0, lastPress_c = 0\<rparr>
                 (buttons_c bm),
             hw_c := rev (map (Call_RequestLine chip off) (fs @ [won])) @ hw_c bm\<rparr>)" .
  qed
  have c6: "handler (apply_defaults_c config0) chip off last_t now =
     (if last_t \<noteq> 0 \<and>
         Sub now last_t \<le> go_quot (DebounceTime_c (apply_defaults_c config0)) 2
      then (last_t, [])
      else (now, case Callback_c config0 of
                   None \<Rightarrow> []
                 | Some cb \<Rightarrow> [(cb, PinName_c config0)]))"
    using handler_accepts[OF d' n, of chip off last_t now] cb
    by (simp split: option.split)
  from c1 c2 c3 c4 c5 c6
  show "combos (apply_defaults_c config0) chip off =
     [base (apply_defaults_c config0) @
        [WithEventHandler (apply_defaults_c config0) chip off,
         WithDebounce (DebounceTime_c (apply_defaults_c config0)), pOpt],
      base (apply_defaults_c config0) @
        [WithEventHandler (apply_defaults_c config0) chip off,
         WithDebounce (DebounceTime_c (apply_defaults_c config0))],
      base (apply_defaults_c config0) @
        [WithEventHandler (apply_defaults_c config0) chip off, pOpt],
      base (apply_defaults_c config0) @
        [WithEventHandler (apply_defaults_c config0) chip off]] \<and>
   (\<forall>opts \<in> set (combos (apply_defaults_c config0) chip off).
      handler_of opts = Some (apply_defaults_c config0, chip, off)) \<and>
   (fst (AddButton_c req bm config0) = None) =
     (\<exists>opts \<in> set (combos (apply_defaults_c config0) chip off). \<not> isl (req chip off opts)) \<and>
   ((\<forall>opts \<in> set (combos (apply_defaults_c config0) chip off). isl (req chip off opts)) \<longrightarrow>
      AddButton_c req bm config0 =
        (Some (FailedToRequestLine chip off
                 (projl (req chip off (baseOnly (apply_defaults_c config0) chip off)))),
         bm\<lparr>hw_c := rev (map (Call_RequestLine chip off) (combos (apply_defaults_c config0) chip off))
                     @ hw_c bm\<rparr>)) \<and>
   (\<forall>fs won rest l.
      combos (apply_defaults_c config0) chip off = fs @ won # rest \<and>
      (\<forall>opts \<in> set fs. isl (req chip off opts)) \<and> req chip off won = Inr l \<longrightarrow>
      AddButton_c req bm config0 =
        (None,
         bm\<lparr>buttons_c :=
               AList.update (PinName_c config0)
                 \<lparr>line_c = Some l, chip_c = chip, offset_c = off,
                  config_c = apply_defaults_c config0, lastPress_c = 0\<rparr>
                 (buttons_c bm),
             hw_c := rev (map (Call_RequestLine chip off) (fs @ [won])) @ hw_c bm\<rparr>)) \<and>
   handler (apply_defaults_c config0) chip off last_t now =
     (if last_t \<noteq> 0 \<and>
         Sub now last_t \<le> go_quot (DebounceTime_c (apply_defaults_c config0)) 2
      then (last_t, [])
      else (now, case Callback_c config0 of
                   None \<Rightarrow> []
                 | Some cb \<Rightarrow> [(cb, PinName_c config0)]))"
    by (intro conjI)
qed

theorem fallback_order_and_result_witness:
  "pullOption PullUp = Some WithPullUp \<and>
   resolveChipLine ''23'' = Inr (''gpiochip0'', 23) \<and>
   isl (bare_only ''gpiochip0'' 23
          [AsInput, WithConsumer ''gpio-buttons-go'', WithRisingEdge, AsActiveLow,
           WithEventHandler
             \<lparr>PinName_c = ''23'', Callback_c = Some 0, DebounceTime_c = 50 * Millisecond,
              Pull_c = PullUp, ActiveLow_c = True\<rparr> ''gpiochip0'' 23,
           WithDebounce (50 * Millisecond), WithPullUp]) \<and>
   AddButton_c bare_only NewButtonManager_c
     \<lparr>PinName_c = ''23'', Callback_c = Some 0, DebounceTime_c = 0, Pull_c = PullUp,
      ActiveLow_c = True\<rparr> =
     (None,
      \<lparr>buttons_c =
         [(''23'',
           \<lparr>line_c = Some 0, chip_c = ''gpiochip0'', offset_c = 23,
            config_c = \<lparr>PinName_c = ''23'', Callback_c = Some 0,
                        DebounceTime_c = 50 * Millisecond, Pull_c = PullUp,
                        ActiveLow_c = True\<rparr>,
            lastPress_c = 0\<rparr>)],
       hw_c =
         [Call_RequestLine ''gpiochip0'' 23
            [AsInput, WithConsumer ''gpio-buttons-go'', WithRisingEdge, AsActiveLow,
             WithEventHandler
               \<lparr>PinName_c = ''23'', Callback_c = Some 0, DebounceTime_c = 50 * Millisecond,
                Pull_c = PullUp, ActiveLow_c = True\<rparr> ''gpiochip0'' 23],
          Call_RequestLine ''gpiochip0'' 23
            [AsInput, WithConsumer ''gpio-buttons-go'', WithRisingEdge, AsActiveLow,
             WithEventHandler
               \<lparr>PinName_c = ''23'', Callback_c = Some 0, DebounceTime_c = 50 * Millisecond,
                Pull_c = PullUp, ActiveLow_c = True\<rparr> ''gpiochip0'' 23,
             WithPullUp],
          Call_RequestLine ''gpiochip0'' 23
            [AsInput, WithConsumer ''gpio-buttons-go'', WithRisingEdge, AsActiveLow,
             WithEventHandler
               \<lparr>PinName_c = ''23'', Callback_c = Some 0, DebounceTime_c = 50 * Millisecond,
                Pull_c = PullUp, ActiveLow_c = True\<rparr> ''gpiochip0'' 23,
             WithDebounce (50 * Millisecond)],
          Call_RequestLine ''gpiochip0'' 23
            [AsInput, WithConsumer ''gpio-buttons-go'', WithRisingEdge, AsActiveLow,
             WithEventHandler
               \<lparr>PinName_c = ''23'', Callback_c = Some 0, DebounceTime_c = 50 * Millisecond,
                Pull_c = PullUp, ActiveLow_c = True\<rparr> ''gpiochip0'' 23,
             WithDebounce (50 * Millisecond), WithPullUp]]\<rparr>) \<and>
   handler_of
     [AsInput, WithConsumer ''gpio-buttons-go'', WithRisingEdge, AsActiveLow,
      WithEventHandler
        \<lparr>PinName_c = ''23'', Callback_c = Some 0, DebounceTime_c = 50 * Millisecond,
         Pull_c = PullUp, ActiveLow_c = True\<rparr> ''gpiochip0'' 23] =
     Some (\<lparr>PinName_c = ''23'', Callback_c = Some 0, DebounceTime_c = 50 * Millisecond,
            Pull_c = PullUp, ActiveLow_c = True\<rparr>, ''gpiochip0'', 23) \<and>
   handler
     \<lparr>PinName_c = ''23'', Callback_c = Some 0, DebounceTime_c = 50 * Millisecond,
      Pull_c = PullUp, ActiveLow_c = True\<rparr> ''gpiochip0'' 23
     (1000 * Millisecond) (1030 * Millisecond) = (1030 * Millisecond, [(0, ''23'')])"
proof -
  let ?cfg = "\<lparr>PinName_c = ''23'', Callback_c = Some 0, DebounceTime_c = 0, Pull_c = PullUp,
               ActiveLow_c = True\<rparr>"
  let ?cfgd = "\<lparr>PinName_c = ''23'', Callback_c = Some 0, DebounceTime_c = 50 * Millisecond,
                Pull_c = PullUp, ActiveLow_c = True\<rparr>"
  let ?b = "[AsInput, WithConsumer ''gpio-buttons-go'', WithRisingEdge, AsActiveLow]"
  let ?h = "WithEventHandler ?cfgd ''gpiochip0'' 23"
  note T = fallback_order_and_result
    [where ?config0.0 = ?cfg and pOpt = WithPullUp and chip = "''gpiochip0''" and off = 23
       and req = bare_only and bm = NewButtonManager_c and last_t = "1000 * Millisecond"
       and now = "1030 * Millisecond"]
  have a: "apply_defaults_c ?cfg = ?cfgd"
    by (simp add: apply_defaults_c_def defaultDebounceTime_def)
  have p: "pullOption PullUp = Some WithPullUp"
    by (simp add: pullOption_def)
  have h: "pullOption (Pull_c ?cfg) = Some WithPullUp \<and> 0 \<le> DebounceTime_c ?cfg \<and>
           resolveChipLine (PinName_c ?cfg) = Inr (''gpiochip0'', 23)"
    using resolve_23 p by simp
  note U = T[THEN mp, OF h, unfolded a]
  have c: "combos ?cfgd ''gpiochip0'' 23 =
      [?b @ [?h, WithDebounce (50 * Millisecond), WithPullUp],
       ?b @ [?h, WithDebounce (50 * Millisecond)],
       ?b @ [?h, WithPullUp],
       ?b @ [?h]]"
    using U[THEN conjunct1] by (simp add: base_def)
  have i: "isl (bare_only ''gpiochip0'' 23
             (?b @ [?h, WithDebounce (50 * Millisecond), WithPullUp]))"
    by (simp add: bare_only_def)
  have m: "?b @ [?h] \<in> set (combos ?cfgd ''gpiochip0'' 23)"
    by (simp add: c)
  from U[THEN conjunct2, THEN conjunct1] m
  have g: "handler_of (?b @ [?h]) = Some (?cfgd, ''gpiochip0'', 23)"
    by (rule bspec)
  have e: "handler ?cfgd ''gpiochip0'' 23 (1000 * Millisecond) (1030 * Millisecond) =
             (1030 * Millisecond, [(0, ''23'')])"
    using U[THEN conjunct2, THEN conjunct2, THEN conjunct2, THEN conjunct2, THEN conjunct2]
    by (simp add: Sub_def go_quot_def Millisecond_def maxDuration_def minDuration_def)
  from p resolve_23 i AddButton_c_bare_example g e show ?thesis
    by (intro conjI) simp_all
qed

text \<open>
  Claim C6 as stated fails on "a functional button that honors debounce": on a chip that
  grants only the bare request, the registration of a button with the default window of
  50 ms succeeds with the option set that has no \<^verbatim>\<open>WithDebounce\<close>, and the handler of that
  request accepts presses 1000, 1030 and 1080 ms, of which the gate of the specification
  with a window of 50 ms rejects the second.
\<close>

theorem fallback_counterexample:
  "fst (AddButton_c bare_only NewButtonManager_c
          \<lparr>PinName_c = ''23'', Callback_c = Some 0, DebounceTime_c = 0, Pull_c = PullUp,
           ActiveLow_c = True\<rparr>) = None \<and>
   hd (hw_c (snd (AddButton_c bare_only NewButtonManager_c
          \<lparr>PinName_c = ''23'', Callback_c = Some 0, DebounceTime_c = 0, Pull_c = PullUp,
           ActiveLow_c = True\<rparr>))) =
     Call_RequestLine ''gpiochip0'' 23
       [AsInput, WithConsumer ''gpio-buttons-go'', WithRisingEdge, AsActiveLow,
        WithEventHandler
          \<lparr>PinName_c = ''23'', Callback_c = Some 0, DebounceTime_c = 50 * Millisecond,
           Pull_c = PullUp, ActiveLow_c = True\<rparr> ''gpiochip0'' 23] \<and>
   decisions_c
     \<lparr>PinName_c = ''23'', Callback_c = Some 0, DebounceTime_c = 50 * Millisecond,
      Pull_c = PullUp, ActiveLow_c = True\<rparr>
     ''gpiochip0'' 23 0 [1000 * Millisecond, 1030 * Millisecond, 1080 * Millisecond] =
     [True, True, True] \<and>
   spec_consider (50 * Millisecond) 0
     [1000 * Millisecond, 1030 * Millisecond, 1080 * Millisecond] = [True, False, True]"
  by (simp add: AddButton_c_bare_example)
     (simp add: burst_guard_def handler_def IsZero_def Sub_def go_quot_def Millisecond_def
      maxDuration_def minDuration_def)

subsection \<open>What a successful registration does to the registry\<close>

lemma length_update:
  "length (AList.update k v al) = (if k \<in> fst ` set al then length al else length al + 1)"
  by (induction al) auto

lemma AddButton_p_ok:
  assumes "fst (AddButton_p host bm cfg) = None"
  shows "\<exists>pin. ByName host (PinName_p cfg) = Some pin \<and>
           In_err host pin (Pull_p (apply_defaults_p host cfg)) gpio_BothEdges = None \<and>
           snd (AddButton_p host bm cfg) =
             bm\<lparr>hw_p := Call_In pin (Pull_p (apply_defaults_p host cfg)) gpio_BothEdges # hw_p bm,
                buttons_p := AList.update (PinName_p cfg)
                  \<lparr>pin_p = pin, config_p = apply_defaults_p host cfg, lastPress_p = 0\<rparr>
                  (buttons_p bm)\<rparr>"
  using assms by (auto simp: AddButton_p_def Let_def split: option.splits)

lemma AddButton_c_ok:
  assumes "fst (AddButton_c req bm cfg) = None"
  shows "\<exists>chip off line hw. resolveChipLine (PinName_c cfg) = Inr (chip, off) \<and>
           request_loop req chip off (combos (apply_defaults_c cfg) chip off) (None, None, hw_c bm) =
             (line, None, hw) \<and>
           snd (AddButton_c req bm cfg) =
             bm\<lparr>buttons_c := AList.update (PinName_c cfg)
                  \<lparr>line_c = line, chip_c = chip, offset_c = off,
                   config_c = apply_defaults_c cfg, lastPress_c = 0\<rparr>
                  (buttons_c bm),
                hw_c := hw\<rparr>"
proof -
  from assms obtain chip off where r: "resolveChipLine (PinName_c cfg) = Inr (chip, off)"
    by (cases "resolveChipLine (PinName_c cfg)") (auto simp: AddButton_c_def Let_def)
  then have n: "PinName_c cfg \<noteq> []" using resolveChipLine_nonempty by blast
  obtain line e hw where l: "request_loop req chip off (combos (apply_defaults_c cfg) chip off)
      (None, None, hw_c bm) = (line, e, hw)" by (metis prod_cases3)
  with assms r have "e = None"
    by (cases e) (auto simp: AddButton_c_def Let_def)
  with l r n show ?thesis
    by (auto simp: AddButton_c_def Let_def)
qed

lemma request_loop_no_close:
  "request_loop req chip off cs (l0, e0, hw) = (l, e, hw') \<Longrightarrow>
   Call_Close x \<in> set hw' \<Longrightarrow> Call_Close x \<in> set hw"
proof (induction cs arbitrary: l0 e0 hw)
  case Nil
  then show ?case by simp
next
  case (Cons c cs)
  show ?case
  proof (cases "req chip off c")
    case (Inl a)
    with Cons.prems Cons.IH[of None "Some a" "Call_RequestLine chip off c # hw"]
    show ?thesis by auto
  next
    case (Inr b)
    with Cons.prems show ?thesis by auto
  qed
qed

lemma AddButton_p_registry:
  assumes ok: "fst (AddButton_p host bm cfg) = None"
  shows "map_option config_p (map_of (buttons_p (snd (AddButton_p host bm cfg))) (PinName_p cfg)) =
           Some (apply_defaults_p host cfg)"
    and "k \<noteq> PinName_p cfg \<Longrightarrow>
           map_of (buttons_p (snd (AddButton_p host bm cfg))) k = map_of (buttons_p bm) k"
    and "distinct (map fst (buttons_p bm)) \<Longrightarrow>
           distinct (map fst (buttons_p (snd (AddButton_p host bm cfg))))"
    and "GetButtonCount_p (snd (AddButton_p host bm cfg)) =
           (if PinName_p cfg \<in> fst ` set (buttons_p bm) then GetButtonCount_p bm
            else GetButtonCount_p bm + 1)"
    and "Call_Halt pin \<in> set (hw_p (snd (AddButton_p host bm cfg))) \<Longrightarrow>
           Call_Halt pin \<in> set (hw_p bm)"
proof -
  from AddButton_p_ok[OF ok] obtain p where
    s: "snd (AddButton_p host bm cfg) =
          bm\<lparr>hw_p := Call_In p (Pull_p (apply_defaults_p host cfg)) gpio_BothEdges # hw_p bm,
             buttons_p := AList.update (PinName_p cfg)
               \<lparr>pin_p = p, config_p = apply_defaults_p host cfg, lastPress_p = 0\<rparr>
               (buttons_p bm)\<rparr>" by blast
  show "map_option config_p (map_of (buttons_p (snd (AddButton_p host bm cfg))) (PinName_p cfg)) =
           Some (apply_defaults_p host cfg)"
    by (simp add: s update_conv')
  show "k \<noteq> PinName_p cfg \<Longrightarrow>
           map_of (buttons_p (snd (AddButton_p host bm cfg))) k = map_of (buttons_p bm) k"
    by (simp add: s update_conv')
  show "distinct (map fst (buttons_p bm)) \<Longrightarrow>
           distinct (map fst (buttons_p (snd (AddButton_p host bm cfg))))"
    by (simp add: s distinct_update)
  show "GetButtonCount_p (snd (AddButton_p host bm cfg)) =
           (if PinName_p cfg \<in> fst ` set (buttons_p bm) then GetButtonCount_p bm
            else GetButtonCount_p bm + 1)"
    by (simp add: s length_update GetButtonCount_p_def)
  show "Call_Halt pin \<in> set (hw_p (snd (AddButton_p host bm cfg))) \<Longrightarrow>
           Call_Halt pin \<in> set (hw_p bm)"
    by (simp add: s)
qed

lemma AddButton_c_registry:
  assumes ok: "fst (AddButton_c req bm cfg) = None"
  shows "map_option config_c (map_of (buttons_c (snd (AddButton_c req bm cfg))) (PinName_c cfg)) =
           Some (apply_defaults_c cfg)"
    and "k \<noteq> PinName_c cfg \<Longrightarrow>
           map_of (buttons_c (snd (AddButton_c req bm cfg))) k = map_of (buttons_c bm) k"
    and "distinct (map fst (buttons_c bm)) \<Longrightarrow>
           distinct (map fst (buttons_c (snd (AddButton_c req bm cfg))))"
    and "GetButtonCount_c (snd (AddButton_c req bm cfg)) =
           (if PinName_c cfg \<in> fst ` set (buttons_c bm) then GetButtonCount_c bm
            else GetButtonCount_c bm + 1)"
    and "Call_Close l \<in> set (hw_c (snd (AddButton_c req bm cfg))) \<Longrightarrow>
           Call_Close l \<in> set (hw_c bm)"
proof -
  from AddButton_c_ok[OF ok] obtain chip off line hw where
    q: "request_loop req chip off (combos (apply_defaults_c cfg) chip off) (None, None, hw_c bm) =
             (line, None, hw)" and
    s: "snd (AddButton_c req bm cfg) =
          bm\<lparr>buttons_c := AList.update (PinName_c cfg)
               \<lparr>line_c = line, chip_c = chip, offset_c = off,
                config_c = apply_defaults_c cfg, lastPress_c = 0\<rparr>
               (buttons_c bm),
             hw_c := hw\<rparr>" by blast
  show "map_option config_c (map_of (buttons_c (snd (AddButton_c req bm cfg))) (PinName_c cfg)) =
           Some (apply_defaults_c cfg)"
    by (simp add: s update_conv')
  show "k \<noteq> PinName_c cfg \<Longrightarrow>
           map_of (buttons_c (snd (AddButton_c req bm cfg))) k = map_of (buttons_c bm) k"
    by (simp add: s update_conv')
  show "distinct (map fst (buttons_c bm)) \<Longrightarrow>
           distinct (map fst (buttons_c (snd (AddButton_c req bm cfg))))"
    by (simp add: s distinct_update)
  show "GetButtonCount_c (snd (AddButton_c req bm cfg)) =
           (if PinName_c cfg \<in> fst ` set (buttons_c bm) then GetButtonCount_c bm
            else GetButtonCount_c bm + 1)"
    by (simp add: s length_update GetButtonCount_c_def)
  show "Call_Close l \<in> set (hw_c (snd (AddButton_c req bm cfg))) \<Longrightarrow>
           Call_Close l \<in> set (hw_c bm)"
    using request_loop_no_close[OF q] by (simp add: s)
qed

subsection \<open>Defaults and negative windows\<close>

lemma AddButton_p_debounce_irrelevant:
  "fst (AddButton_p host bm (cfg\<lparr>DebounceTime_p := d\<rparr>)) = fst (AddButton_p host bm cfg)"
  by (auto simp: AddButton_p_def apply_defaults_p_def Let_def split: option.splits)

lemma apply_defaults_c_nonzero: "DebounceTime_c cfg \<noteq> 0 \<Longrightarrow> apply_defaults_c cfg = cfg"
  by (simp add: apply_defaults_c_def)

lemma baseOnly_in_combos: "baseOnly cfg chip off \<in> set (combos cfg chip off)"
  by (simp add: combos_def)

lemma AddButton_c_bare_granted:
  assumes "resolveChipLine (PinName_c cfg) = Inr (chip, off)"
    and "req chip off (baseOnly (apply_defaults_c cfg) chip off) = Inr l"
  shows "fst (AddButton_c req bm cfg) = None"
proof -
  have "baseOnly (apply_defaults_c cfg) chip off \<in> set (combos (apply_defaults_c cfg) chip off)"
    by (rule baseOnly_in_combos)
  with assms(2) have "\<exists>opts \<in> set (combos (apply_defaults_c cfg) chip off). \<not> isl (req chip off opts)"
    by (intro bexI[of _ "baseOnly (apply_defaults_c cfg) chip off"]) auto
  with AddButton_c_ok_iff[OF assms(1), of req bm] show ?thesis by simp
qed

lemma AddButton_c_bare_negative:
  assumes "DebounceTime_c cfg < 0"
    and "resolveChipLine (PinName_c cfg) = Inr (chip, off)"
    and "req chip off (baseOnly cfg chip off) = Inr l"
  shows "fst (AddButton_c req bm cfg) = None"
proof -
  from assms(1) have "apply_defaults_c cfg = cfg"
    by (simp add: apply_defaults_c_nonzero)
  with assms(3) have "req chip off (baseOnly (apply_defaults_c cfg) chip off) = Inr l"
    by simp
  with assms(2) show ?thesis by (rule AddButton_c_bare_granted)
qed

lemma negative_window_passes_p:
  "DebounceTime_p (config_p btn) < 0 \<Longrightarrow> lastPress_p btn \<le> now \<Longrightarrow> isDebouncePassed btn now"
  by (auto simp: isDebouncePassed_def Since_def Sub_def maxDuration_def minDuration_def)

lemma negative_window_passes_c:
  "DebounceTime_c config \<le> 0 \<Longrightarrow> \<not> burst_guard config last_t now"
  by (simp add: burst_guard_def)

lemma stored_debounce_p:
  "fst (AddButton_p host bm cfg) = None \<Longrightarrow>
   map_option (DebounceTime_p \<circ> config_p)
     (map_of (buttons_p (snd (AddButton_p host bm cfg))) (PinName_p cfg)) =
   Some (if DebounceTime_p cfg = 0 then defaultDebounceTime else DebounceTime_p cfg)"
  using AddButton_p_registry(1)[of host bm cfg]
  by (auto simp: apply_defaults_p_def Let_def)

lemma stored_debounce_c:
  "fst (AddButton_c req bm cfg) = None \<Longrightarrow>
   map_option (DebounceTime_c \<circ> config_c)
     (map_of (buttons_c (snd (AddButton_c req bm cfg))) (PinName_c cfg)) =
   Some (if DebounceTime_c cfg = 0 then defaultDebounceTime else DebounceTime_c cfg)"
  using AddButton_c_registry(1)[of req bm cfg]
  by (auto simp: apply_defaults_c_def)

subsection \<open>Polarity\<close>

lemma monitor_body_Press:
  "monitor_body btn w = Press b cs \<Longrightarrow>
   edge w \<and> \<not> shutting_down w \<and> level w = gpio_Low \<and> isDebouncePassed btn (now_check w) \<and>
   b = updateLastPress btn (now_update w) \<and> cs = invokeCallback b"
  by (auto simp: monitor_body_def isPressed_def Let_def split: if_splits)

lemma monitor_body_awake:
  "edge w \<Longrightarrow> \<not> shutting_down w \<Longrightarrow>
   (monitor_body btn w \<noteq> Idle) = (level w = gpio_Low \<and> isDebouncePassed btn (now_check w))"
  by (auto simp: monitor_body_def isPressed_def Let_def)

lemma combos_polarity:
  "opts \<in> set (combos config chip off) \<Longrightarrow>
   (AsActiveLow \<in> set opts) = ActiveLow_c config \<and> WithRisingEdge \<in> set opts \<and>
   WithEventHandler config chip off \<in> set opts"
  by (auto simp: combos_def full_def noBias_def noDeb_def baseOnly_def base_def pullOption_def
      split: option.splits if_splits)

subsection \<open>The recorded press times\<close>

lemma trace_p_elems:
  "x \<in> set (lastPress_trace_p btn ws) \<Longrightarrow> x = lastPress_p btn \<or> x \<in> now_update ` set ws"
proof (induction ws arbitrary: btn)
  case Nil
  then show ?case by simp
next
  case (Cons w ws)
  show ?case
  proof (cases "monitor_body btn w")
    case Return
    with Cons.prems show ?thesis by simp
  next
    case Idle
    with Cons.prems Cons.IH[of btn] show ?thesis by auto
  next
    case (Press b cs)
    then have "lastPress_p b = now_update w"
      by (auto dest: monitor_body_Press simp: updateLastPress_def)
    with Press Cons.prems Cons.IH[of b] show ?thesis by auto
  qed
qed

lemma sorted_trace_p:
  "sorted (lastPress_p btn # clock_readings ws) \<Longrightarrow> sorted (lastPress_trace_p btn ws)"
proof (induction ws arbitrary: btn)
  case Nil
  then show ?case by simp
next
  case (Cons w ws)
  from Cons.prems have s0: "lastPress_p btn \<le> now_check w" "now_check w \<le> now_update w"
    and s1: "sorted (now_update w # clock_readings ws)"
    and s2: "\<forall>x \<in> set (clock_readings ws). lastPress_p btn \<le> x"
    by (auto simp: clock_readings_def)
  have s3: "sorted (lastPress_p btn # clock_readings ws)"
    using s1 s2 by auto
  show ?case
  proof (cases "monitor_body btn w")
    case Return
    then show ?thesis by simp
  next
    case Idle
    with Cons.IH[OF s3] show ?thesis by simp
  next
    case (Press b cs)
    then have l: "lastPress_p b = now_update w"
      by (auto dest: monitor_body_Press simp: updateLastPress_def)
    with s1 have "sorted (lastPress_trace_p b ws)" using Cons.IH[of b] by simp
    moreover have "\<forall>x \<in> set (lastPress_trace_p b ws). lastPress_p btn \<le> x"
    proof
      fix x assume "x \<in> set (lastPress_trace_p b ws)"
      then have "x = now_update w \<or> x \<in> now_update ` set ws"
        using trace_p_elems[of x b ws] l by simp
      moreover have "now_update ` set ws \<subseteq> set (clock_readings ws)"
        by (auto simp: clock_readings_def)
      ultimately show "lastPress_p btn \<le> x" using s0 s2 by auto
    qed
    ultimately show ?thesis using Press by simp
  qed
qed

lemma trace_c_elems:
  "x \<in> set (last_trace_c config chip off last_t nows) \<Longrightarrow> x = last_t \<or> x \<in> set nows"
  by (induction nows arbitrary: last_t) (auto simp: handler_def split: if_splits)

lemma sorted_trace_c:
  "sorted (last_t # nows) \<Longrightarrow> sorted (last_trace_c config chip off last_t nows)"
proof (induction nows arbitrary: last_t)
  case Nil
  then show ?case by simp
next
  case (Cons n nows)
  let ?l = "fst (handler config chip off last_t n)"
  have l: "?l = last_t \<or> ?l = n" by (simp add: handler_def)
  with Cons.prems have "sorted (?l # nows)" by auto
  then have "sorted (last_trace_c config chip off ?l nows)" by (rule Cons.IH)
  moreover have "\<forall>x \<in> set (last_trace_c config chip off ?l nows). last_t \<le> x"
  proof
    fix x assume "x \<in> set (last_trace_c config chip off ?l nows)"
    then have "x = ?l \<or> x \<in> set nows" by (rule trace_c_elems)
    with l Cons.prems show "last_t \<le> x" by auto
  qed
  ultimately show ?case by simp
qed

subsection \<open>Stopping\<close>

lemma fold_halt_fields:
  "buttons_p (fold halt_pin xs bm) = buttons_p bm \<and>
   cancelled_p (fold halt_pin xs bm) = cancelled_p bm \<and>
   wg_p (fold halt_pin xs bm) = wg_p bm \<and> spawned_p (fold halt_pin xs bm) = spawned_p bm \<and>
   dispatched_p (fold halt_pin xs bm) = dispatched_p bm \<and>
   hw_p (fold halt_pin xs bm) = rev (map (\<lambda>kb. Call_Halt (pin_p (snd kb))) xs) @ hw_p bm"
  by (induction xs arbitrary: bm) (auto simp: halt_pin_def)

lemma Stop_p_before_start:
  "wg_p bm = 0 \<Longrightarrow> Stop_p bm [] = Some (haltAllPins (cancel_p bm))"
  by (simp add: Stop_p_def wg_Wait_def cancel_p_def)

lemma Stop_p_blocked: "wg_p bm > 0 \<Longrightarrow> Stop_p bm [] = None"
  by (simp add: Stop_p_def wg_Wait_def cancel_p_def)

subsection \<open>The claims on registration, polarity, press times and stopping\<close>

text \<open>
  Claim C7, as the code has it. A registration that succeeds stores its configuration under
  the identifier, replacing whatever entry was there, whether or not the line of that entry
  was released: the registration itself makes no \<^verbatim>\<open>Halt\<close> or \<^verbatim>\<open>Close\<close> call. The
  other entries are untouched and the registry keeps one entry per identifier.
\<close>

theorem reregistration_replaces_entry:
  "(fst (AddButton_p host bm cfg) = None \<longrightarrow>
      map_option config_p (map_of (buttons_p (snd (AddButton_p host bm cfg))) (PinName_p cfg)) =
        Some (apply_defaults_p host cfg) \<and>
      (\<forall>k. k \<noteq> PinName_p cfg \<longrightarrow>
         map_of (buttons_p (snd (AddButton_p host bm cfg))) k = map_of (buttons_p bm) k) \<and>
      (distinct (map fst (buttons_p bm)) \<longrightarrow>
         distinct (map fst (buttons_p (snd (AddButton_p host bm cfg))))) \<and>
      GetButtonCount_p (snd (AddButton_p host bm cfg)) =
        (if PinName_p cfg \<in> fst ` set (buttons_p bm) then GetButtonCount_p bm
         else GetButtonCount_p bm + 1) \<and>
      (\<forall>pin. Call_Halt pin \<in> set (hw_p (snd (AddButton_p host bm cfg))) \<longrightarrow>
         Call_Halt pin \<in> set (hw_p bm))) \<and>
   (fst (AddButton_c req bmc cfgc) = None \<longrightarrow>
      map_option config_c (map_of (buttons_c (snd (AddButton_c req bmc cfgc))) (PinName_c cfgc)) =
        Some (apply_defaults_c cfgc) \<and>
      (\<forall>k. k \<noteq> PinName_c cfgc \<longrightarrow>
         map_of (buttons_c (snd (AddButton_c req bmc cfgc))) k = map_of (buttons_c bmc) k) \<and>
      (distinct (map fst (buttons_c bmc)) \<longrightarrow>
         distinct (map fst (buttons_c (snd (AddButton_c req bmc cfgc))))) \<and>
      GetButtonCount_c (snd (AddButton_c req bmc cfgc)) =
        (if PinName_c cfgc \<in> fst ` set (buttons_c bmc) then GetButtonCount_c bmc
         else GetButtonCount_c bmc + 1) \<and>
      (\<forall>l. Call_Close l \<in> set (hw_c (snd (AddButton_c req bmc cfgc))) \<longrightarrow>
         Call_Close l \<in> set (hw_c bmc)))"
  using AddButton_p_registry[of host bm cfg] AddButton_c_registry[of req bmc cfgc]
  by blast

lemma AddButton_p_first:
  "AddButton_p one_pin NewButtonManager_p
     \<lparr>PinName_p = ''GPIO1_A0'', Callback_p = Some 0, DebounceTime_p = 0,
      Pull_p = 0\<rparr> =
   (None,
    \<lparr>buttons_p =
       [(''GPIO1_A0'',
         \<lparr>pin_p = 0,
          config_p = \<lparr>PinName_p = ''GPIO1_A0'', Callback_p = Some 0,
                      DebounceTime_p = 50 * Millisecond, Pull_p = 0\<rparr>,
          lastPress_p = 0\<rparr>)],
     cancelled_p = False, wg_p = 0, spawned_p = [], dispatched_p = [],
     hw_p = [Call_In 0 0 gpio_BothEdges]\<rparr>)"
  by (simp add: AddButton_p_def one_pin_def NewButtonManager_p_def apply_defaults_p_def
      defaultPull_def defaultDebounceTime_def Let_def)

lemma AddButton_c_first:
  "AddButton_c accept_all NewButtonManager_c
     \<lparr>PinName_c = ''23'', Callback_c = Some 0, DebounceTime_c = 0, Pull_c = PullNoChange,
      ActiveLow_c = True\<rparr> =
   (None,
    \<lparr>buttons_c =
       [(''23'',
         \<lparr>line_c = Some 0, chip_c = ''gpiochip0'', offset_c = 23,
          config_c = \<lparr>PinName_c = ''23'', Callback_c = Some 0,
                      DebounceTime_c = 50 * Millisecond, Pull_c = PullNoChange,
                      ActiveLow_c = True\<rparr>,
          lastPress_c = 0\<rparr>)],
     hw_c =
       [Call_RequestLine ''gpiochip0'' 23
          [AsInput, WithConsumer ''gpio-buttons-go'', WithRisingEdge, AsActiveLow,
           WithEventHandler
             \<lparr>PinName_c = ''23'', Callback_c = Some 0, DebounceTime_c = 50 * Millisecond,
              Pull_c = PullNoChange, ActiveLow_c = True\<rparr> ''gpiochip0'' 23,
           WithDebounce (50 * Millisecond)]]\<rparr>)"
  by (simp add: AddButton_c_def accept_all_def NewButtonManager_c_def apply_defaults_c_def
      defaultDebounceTime_def Let_def resolve_23 combos_def full_def base_def pullOption_def
      PullNoChange_def PullUp_def PullDown_def PullDisabled_def Millisecond_def)

theorem reregistration_replaces_entry_witness:
  "fst (AddButton_p one_pin
          (snd (AddButton_p one_pin NewButtonManager_p
             \<lparr>PinName_p = ''GPIO1_A0'', Callback_p = Some 0, DebounceTime_p = 0,
              Pull_p = 0\<rparr>))
          \<lparr>PinName_p = ''GPIO1_A0'', Callback_p = Some 1,
           DebounceTime_p = 100 * Millisecond, Pull_p = 3\<rparr>) = None \<and>
   GetButtonCount_p
     (snd (AddButton_p one_pin
          (snd (AddButton_p one_pin NewButtonManager_p
             \<lparr>PinName_p = ''GPIO1_A0'', Callback_p = Some 0, DebounceTime_p = 0,
              Pull_p = 0\<rparr>))
          \<lparr>PinName_p = ''GPIO1_A0'', Callback_p = Some 1,
           DebounceTime_p = 100 * Millisecond, Pull_p = 3\<rparr>)) = 1 \<and>
   fst (AddButton_c accept_all
          (snd (AddButton_c accept_all NewButtonManager_c
             \<lparr>PinName_c = ''23'', Callback_c = Some 0, DebounceTime_c = 0,
              Pull_c = PullNoChange, ActiveLow_c = True\<rparr>))
          \<lparr>PinName_c = ''23'', Callback_c = Some 1, DebounceTime_c = 100 * Millisecond,
           Pull_c = PullNoChange, ActiveLow_c = False\<rparr>) = None \<and>
   GetButtonCount_c
     (snd (AddButton_c accept_all
          (snd (AddButton_c accept_all NewButtonManager_c
             \<lparr>PinName_c = ''23'', Callback_c = Some 0, DebounceTime_c = 0,
              Pull_c = PullNoChange, ActiveLow_c = True\<rparr>))
          \<lparr>PinName_c = ''23'', Callback_c = Some 1, DebounceTime_c = 100 * Millisecond,
           Pull_c = PullNoChange, ActiveLow_c = False\<rparr>)) = 1"
proof -
  let ?bm = "snd (AddButton_p one_pin NewButtonManager_p
             \<lparr>PinName_p = ''GPIO1_A0'', Callback_p = Some 0, DebounceTime_p = 0,
              Pull_p = 0\<rparr>)"
  let ?cfg = "\<lparr>PinName_p = ''GPIO1_A0'', Callback_p = Some 1,
           DebounceTime_p = 100 * Millisecond, Pull_p = 3\<rparr>"
  let ?bmc = "snd (AddButton_c accept_all NewButtonManager_c
             \<lparr>PinName_c = ''23'', Callback_c = Some 0, DebounceTime_c = 0,
              Pull_c = PullNoChange, ActiveLow_c = True\<rparr>)"
  let ?cfgc = "\<lparr>PinName_c = ''23'', Callback_c = Some 1, DebounceTime_c = 100 * Millisecond,
           Pull_c = PullNoChange, ActiveLow_c = False\<rparr>"
  have p: "fst (AddButton_p one_pin ?bm ?cfg) = None"
    by (simp add: AddButton_p_def one_pin_def Let_def)
  have "resolveChipLine (PinName_c ?cfgc) = Inr (''gpiochip0'', 23)"
    using resolve_23 by simp
  then have c: "fst (AddButton_c accept_all ?bmc ?cfgc) = None"
    by (rule AddButton_c_bare_granted) (simp add: accept_all_def)
  from p c reregistration_replaces_entry[of one_pin ?bm ?cfg accept_all ?bmc ?cfgc]
  show ?thesis
    by (simp add: AddButton_p_first AddButton_c_first GetButtonCount_p_def
        GetButtonCount_c_def)
qed

text \<open>
  Claim C7 as stated fails on the poll variant: the pin of the first registration is never
  halted, and the second registration of the same name replaces the entry.
\<close>

theorem reregistration_counterexample:
  "buttons_p (snd (AddButton_p one_pin NewButtonManager_p
       \<lparr>PinName_p = ''GPIO1_A0'', Callback_p = Some 0, DebounceTime_p = 0,
        Pull_p = 0\<rparr>)) =
     [(''GPIO1_A0'',
       \<lparr>pin_p = 0,
        config_p = \<lparr>PinName_p = ''GPIO1_A0'', Callback_p = Some 0,
                    DebounceTime_p = 50 * Millisecond, Pull_p = 0\<rparr>,
        lastPress_p = 0\<rparr>)] \<and>
   AddButton_p one_pin
     (snd (AddButton_p one_pin NewButtonManager_p
       \<lparr>PinName_p = ''GPIO1_A0'', Callback_p = Some 0, DebounceTime_p = 0,
        Pull_p = 0\<rparr>))
     \<lparr>PinName_p = ''GPIO1_A0'', Callback_p = Some 1, DebounceTime_p = 100 * Millisecond,
      Pull_p = 3\<rparr> =
     (None,
      \<lparr>buttons_p =
         [(''GPIO1_A0'',
           \<lparr>pin_p = 0,
            config_p = \<lparr>PinName_p = ''GPIO1_A0'', Callback_p = Some 1,
                        DebounceTime_p = 100 * Millisecond, Pull_p = 3\<rparr>,
            lastPress_p = 0\<rparr>)],
       cancelled_p = False, wg_p = 0, spawned_p = [], dispatched_p = [],
       hw_p = [Call_In 0 3 gpio_BothEdges,
               Call_In 0 0 gpio_BothEdges]\<rparr>)"
  by (simp add: AddButton_p_first)
     (simp add: AddButton_p_def one_pin_def apply_defaults_p_def Millisecond_def Let_def)

text \<open>
  Claim C10. A registration that succeeds stores the 50 ms default when the configured
  window is 0 and the configured window otherwise, so a negative window is kept. A negative
  window does not make the registration fail. Under a negative window the debounce check of
  the poll variant passes for every clock reading not before the last press, and the guard
  of the push variant's handler never holds.
\<close>

theorem negative_debounce_kept:
  "(fst (AddButton_p host bm cfg) = None \<longrightarrow>
      map_option (DebounceTime_p \<circ> config_p)
        (map_of (buttons_p (snd (AddButton_p host bm cfg))) (PinName_p cfg)) =
      Some (if DebounceTime_p cfg = 0 then defaultDebounceTime else DebounceTime_p cfg)) \<and>
   (fst (AddButton_c req bmc cfgc) = None \<longrightarrow>
      map_option (DebounceTime_c \<circ> config_c)
        (map_of (buttons_c (snd (AddButton_c req bmc cfgc))) (PinName_c cfgc)) =
      Some (if DebounceTime_c cfgc = 0 then defaultDebounceTime else DebounceTime_c cfgc)) \<and>
   fst (AddButton_p host bm (cfg\<lparr>DebounceTime_p := d\<rparr>)) = fst (AddButton_p host bm cfg) \<and>
   (DebounceTime_c cfgc < 0 \<and> resolveChipLine (PinName_c cfgc) = Inr (chip, off) \<and>
    req chip off (baseOnly cfgc chip off) = Inr l \<longrightarrow>
      fst (AddButton_c req bmc cfgc) = None) \<and>
   (DebounceTime_p (config_p btn) < 0 \<and> lastPress_p btn \<le> now \<longrightarrow>
      isDebouncePassed btn now) \<and>
   (DebounceTime_c config < 0 \<longrightarrow> \<not> burst_guard config last_t now)"
  using stored_debounce_p[of host bm cfg] stored_debounce_c[of req bmc cfgc]
    AddButton_p_debounce_irrelevant[where host = host and bm = bm and cfg = cfg and d = d]
    AddButton_c_bare_negative[of cfgc chip off req l bmc]
    negative_window_passes_p[of btn now] negative_window_passes_c[of config last_t now]
  by simp

theorem negative_debounce_kept_witness:
  "fst (AddButton_p one_pin NewButtonManager_p
          \<lparr>PinName_p = ''GPIO1_A0'', Callback_p = Some 0,
           DebounceTime_p = - (5 * Millisecond), Pull_p = 0\<rparr>) = None \<and>
   map_option (DebounceTime_p \<circ> config_p)
     (map_of (buttons_p (snd (AddButton_p one_pin NewButtonManager_p
          \<lparr>PinName_p = ''GPIO1_A0'', Callback_p = Some 0,
           DebounceTime_p = - (5 * Millisecond), Pull_p = 0\<rparr>))) ''GPIO1_A0'') =
     Some (- (5 * Millisecond)) \<and>
   resolveChipLine ''23'' = Inr (''gpiochip0'', 23) \<and>
   fst (AddButton_c bare_only NewButtonManager_c
          \<lparr>PinName_c = ''23'', Callback_c = Some 0, DebounceTime_c = - (5 * Millisecond),
           Pull_c = PullNoChange, ActiveLow_c = True\<rparr>) = None \<and>
   map_option (DebounceTime_c \<circ> config_c)
     (map_of (buttons_c (snd (AddButton_c bare_only NewButtonManager_c
          \<lparr>PinName_c = ''23'', Callback_c = Some 0, DebounceTime_c = - (5 * Millisecond),
           Pull_c = PullNoChange, ActiveLow_c = True\<rparr>))) ''23'') =
     Some (- (5 * Millisecond)) \<and>
   isDebouncePassed
     \<lparr>pin_p = 0,
      config_p = \<lparr>PinName_p = ''GPIO1_A0'', Callback_p = Some 0,
                  DebounceTime_p = - (5 * Millisecond), Pull_p = 0\<rparr>,
      lastPress_p = 1000 * Millisecond\<rparr>
     (1000 * Millisecond) \<and>
   \<not> burst_guard
       \<lparr>PinName_c = ''23'', Callback_c = Some 0, DebounceTime_c = - (5 * Millisecond),
        Pull_c = PullNoChange, ActiveLow_c = True\<rparr>
       (1000 * Millisecond) (1000 * Millisecond)"
proof -
  let ?cfg = "\<lparr>PinName_p = ''GPIO1_A0'', Callback_p = Some 0,
           DebounceTime_p = - (5 * Millisecond), Pull_p = 0\<rparr>"
  let ?cfgc = "\<lparr>PinName_c = ''23'', Callback_c = Some 0,
           DebounceTime_c = - (5 * Millisecond), Pull_c = PullNoChange, ActiveLow_c = True\<rparr>"
  let ?btn = "\<lparr>pin_p = 0,
      config_p = \<lparr>PinName_p = ''GPIO1_A0'', Callback_p = Some 0,
                  DebounceTime_p = - (5 * Millisecond), Pull_p = 0\<rparr>,
      lastPress_p = 1000 * Millisecond\<rparr>"
  note T = negative_debounce_kept
    [where host = one_pin and bm = NewButtonManager_p and cfg = ?cfg and req = bare_only
       and bmc = NewButtonManager_c and cfgc = ?cfgc and d = 0 and chip = "''gpiochip0''"
       and off = 23 and l = 0 and btn = ?btn and now = "1000 * Millisecond"
       and config = ?cfgc and last_t = "1000 * Millisecond"]
  have p: "fst (AddButton_p one_pin NewButtonManager_p ?cfg) = None"
    by (simp add: AddButton_p_def one_pin_def Let_def)
  have b: "bare_only ''gpiochip0'' 23 (baseOnly ?cfgc ''gpiochip0'' 23) = Inr 0"
    by (simp add: bare_only_def baseOnly_def base_def)
  have n: "DebounceTime_c ?cfgc < 0" "DebounceTime_p (config_p ?btn) < 0"
    by (simp_all add: Millisecond_def)
  from T p b n resolve_23 show ?thesis
    by (simp add: Millisecond_def)
qed

text \<open>
  Claim C5, as the code has it. In the poll variant the loop takes a level for a press iff it
  is low, whatever the configuration (which has no polarity), and it updates \<^verbatim>\<open>lastPress\<close>
  and dispatches only for a low level that also passes the debounce check. In the push
  variant every option set of the request carries \<^verbatim>\<open>AsActiveLow\<close> iff the configuration is
  active-low, together with \<^verbatim>\<open>WithRisingEdge\<close> and the handler; the handler reads no level.
\<close>

theorem pressed_by_polarity:
  "isPressed lv = (lv = gpio_Low) \<and>
   (monitor_body btn w = Press b cs \<longrightarrow>
      edge w \<and> \<not> shutting_down w \<and> level w = gpio_Low \<and>
      isDebouncePassed btn (now_check w)) \<and>
   (edge w \<and> \<not> shutting_down w \<longrightarrow>
      (monitor_body btn w \<noteq> Idle) =
        (level w = gpio_Low \<and> isDebouncePassed btn (now_check w))) \<and>
   (\<forall>opts \<in> set (combos config chip off).
      (AsActiveLow \<in> set opts) = ActiveLow_c config \<and> WithRisingEdge \<in> set opts \<and>
      WithEventHandler config chip off \<in> set opts)"
proof (intro conjI impI ballI)
  show "isPressed lv = (lv = gpio_Low)" by (simp add: isPressed_def)
next
  assume "monitor_body btn w = Press b cs"
  from monitor_body_Press[OF this]
  show "edge w" "\<not> shutting_down w" "level w = gpio_Low" "isDebouncePassed btn (now_check w)"
    by simp_all
next
  assume "edge w \<and> \<not> shutting_down w"
  then show "(monitor_body btn w \<noteq> Idle) =
        (level w = gpio_Low \<and> isDebouncePassed btn (now_check w))"
    by (simp add: monitor_body_awake)
next
  fix opts assume o: "opts \<in> set (combos config chip off)"
  from combos_polarity[OF o]
  show "(AsActiveLow \<in> set opts) = ActiveLow_c config" "WithRisingEdge \<in> set opts"
    "WithEventHandler config chip off \<in> set opts" by simp_all
qed

theorem pressed_by_polarity_witness:
  "monitor_body
     \<lparr>pin_p = 0,
      config_p = \<lparr>PinName_p = ''GPIO1_A0'', Callback_p = Some 0,
                  DebounceTime_p = 50 * Millisecond, Pull_p = 0\<rparr>,
      lastPress_p = 0\<rparr>
     (press_at (1000 * Millisecond)) =
     Press
       \<lparr>pin_p = 0,
        config_p = \<lparr>PinName_p = ''GPIO1_A0'', Callback_p = Some 0,
                    DebounceTime_p = 50 * Millisecond, Pull_p = 0\<rparr>,
        lastPress_p = 1000 * Millisecond\<rparr>
       [(0, ''GPIO1_A0'')] \<and>
   edge (press_at (1000 * Millisecond)) \<and> \<not> shutting_down (press_at (1000 * Millisecond)) \<and>
   level (press_at (1000 * Millisecond)) = gpio_Low \<and>
   baseOnly
     \<lparr>PinName_c = ''23'', Callback_c = Some 0, DebounceTime_c = 50 * Millisecond,
      Pull_c = PullUp, ActiveLow_c = True\<rparr> ''gpiochip0'' 23
     \<in> set (combos
         \<lparr>PinName_c = ''23'', Callback_c = Some 0, DebounceTime_c = 50 * Millisecond,
          Pull_c = PullUp, ActiveLow_c = True\<rparr> ''gpiochip0'' 23) \<and>
   AsActiveLow \<in> set (baseOnly
     \<lparr>PinName_c = ''23'', Callback_c = Some 0, DebounceTime_c = 50 * Millisecond,
      Pull_c = PullUp, ActiveLow_c = True\<rparr> ''gpiochip0'' 23)"
proof -
  let ?btn = "\<lparr>pin_p = 0,
      config_p = \<lparr>PinName_p = ''GPIO1_A0'', Callback_p = Some 0,
                  DebounceTime_p = 50 * Millisecond, Pull_p = 0\<rparr>,
      lastPress_p = 0\<rparr>"
  let ?b = "\<lparr>pin_p = 0,
        config_p = \<lparr>PinName_p = ''GPIO1_A0'', Callback_p = Some 0,
                    DebounceTime_p = 50 * Millisecond, Pull_p = 0\<rparr>,
        lastPress_p = 1000 * Millisecond\<rparr>"
  let ?cfg = "\<lparr>PinName_c = ''23'', Callback_c = Some 0, DebounceTime_c = 50 * Millisecond,
      Pull_c = PullUp, ActiveLow_c = True\<rparr>"
  let ?w = "press_at (1000 * Millisecond)"
  note T = pressed_by_polarity
    [where btn = ?btn and w = ?w and b = ?b
       and cs = "[(0, ''GPIO1_A0'')]" and config = ?cfg and lv = gpio_Low
       and chip = "''gpiochip0''" and off = 23]
  have m: "monitor_body ?btn ?w = Press ?b [(0, ''GPIO1_A0'')]"
    by (simp add: monitor_body_press_at Sub_def maxDuration_def minDuration_def
        Millisecond_def updateLastPress_def invokeCallback_def)
  have i: "baseOnly ?cfg ''gpiochip0'' 23 \<in> set (combos ?cfg ''gpiochip0'' 23)"
    by (rule baseOnly_in_combos)
  from T[THEN conjunct2, THEN conjunct1] m
  have e: "edge ?w \<and> \<not> shutting_down ?w \<and> level ?w = gpio_Low \<and>
           isDebouncePassed ?btn (now_check ?w)"
    by (rule mp)
  from T[THEN conjunct2, THEN conjunct2, THEN conjunct2] i
  have a: "(AsActiveLow \<in> set (baseOnly ?cfg ''gpiochip0'' 23)) = ActiveLow_c ?cfg \<and>
           WithRisingEdge \<in> set (baseOnly ?cfg ''gpiochip0'' 23) \<and>
           WithEventHandler ?cfg ''gpiochip0'' 23 \<in> set (baseOnly ?cfg ''gpiochip0'' 23)"
    by (rule bspec)
  then have a': "AsActiveLow \<in> set (baseOnly ?cfg ''gpiochip0'' 23)" by simp
  from m e i a' show ?thesis by (intro conjI) simp_all
qed

text \<open>
  Claim C5 as stated fails on the poll variant: a high level, which is a press on an
  active-high button, is not taken for one, and the loop does nothing at it.
\<close>

theorem pressed_by_polarity_counterexample:
  "spec_pressed False gpio_High \<and> \<not> isPressed gpio_High \<and>
   monitor_body
     \<lparr>pin_p = 0,
      config_p = \<lparr>PinName_p = ''GPIO1_A0'', Callback_p = Some 0,
                  DebounceTime_p = 50 * Millisecond, Pull_p = 2\<rparr>,
      lastPress_p = 0\<rparr>
     \<lparr>edge = True, shutting_down = False, level = gpio_High,
      now_check = 1000 * Millisecond, now_update = 1000 * Millisecond\<rparr> = Idle"
  by (simp add: spec_pressed_def isPressed_def monitor_body_def gpio_High_def gpio_Low_def)

text \<open>
  Claim C8. When the clock readings do not decrease and none is before the last recorded
  press, the values \<^verbatim>\<open>lastPress\<close> takes in the poll variant's loop, and the values the
  variable \<^verbatim>\<open>last\<close> of the push variant's handler takes, do not decrease.
\<close>

theorem last_press_monotonic:
  "(sorted (lastPress_p btn # clock_readings ws) \<longrightarrow> sorted (lastPress_trace_p btn ws)) \<and>
   (sorted (last_t # nows) \<longrightarrow> sorted (last_trace_c config chip off last_t nows))"
  using sorted_trace_p[of btn ws] sorted_trace_c[of last_t nows config] by blast

theorem last_press_monotonic_witness:
  "sorted (0 # clock_readings
       (map press_at [1000 * Millisecond, 1030 * Millisecond, 1080 * Millisecond])) \<and>
   lastPress_trace_p
     \<lparr>pin_p = 0,
      config_p = \<lparr>PinName_p = ''GPIO1_A0'', Callback_p = Some 0,
                  DebounceTime_p = 50 * Millisecond, Pull_p = 0\<rparr>,
      lastPress_p = 0\<rparr>
     (map press_at [1000 * Millisecond, 1030 * Millisecond, 1080 * Millisecond]) =
     [0, 1000 * Millisecond, 1080 * Millisecond] \<and>
   sorted [0, 1000 * Millisecond, 1080 * Millisecond] \<and>
   sorted [0, 1000 * Millisecond, 1020 * Millisecond, 1080 * Millisecond] \<and>
   last_trace_c
     \<lparr>PinName_c = ''23'', Callback_c = Some 0, DebounceTime_c = 50 * Millisecond,
      Pull_c = PullUp, ActiveLow_c = True\<rparr>
     ''gpiochip0'' 23 0 [1000 * Millisecond, 1020 * Millisecond, 1080 * Millisecond] =
     [0, 1000 * Millisecond, 1000 * Millisecond, 1080 * Millisecond]"
proof -
  let ?btn = "\<lparr>pin_p = 0,
      config_p = \<lparr>PinName_p = ''GPIO1_A0'', Callback_p = Some 0,
                  DebounceTime_p = 50 * Millisecond, Pull_p = 0\<rparr>,
      lastPress_p = 0\<rparr>"
  let ?ws = "map press_at [1000 * Millisecond, 1030 * Millisecond, 1080 * Millisecond]"
  let ?cfg = "\<lparr>PinName_c = ''23'', Callback_c = Some 0, DebounceTime_c = 50 * Millisecond,
      Pull_c = PullUp, ActiveLow_c = True\<rparr>"
  note T = last_press_monotonic
    [where btn = ?btn and ws = ?ws and config = ?cfg and last_t = 0
       and nows = "[1000 * Millisecond, 1020 * Millisecond, 1080 * Millisecond]"]
  have s: "sorted (lastPress_p ?btn # clock_readings ?ws)"
    by (simp add: clock_readings_def press_at_def Millisecond_def)
  have t: "lastPress_trace_p ?btn ?ws = [0, 1000 * Millisecond, 1080 * Millisecond]"
    by (simp add: monitor_body_press_at Sub_def maxDuration_def minDuration_def
        Millisecond_def updateLastPress_def)
  have c: "last_trace_c ?cfg ''gpiochip0'' 23 0
             [1000 * Millisecond, 1020 * Millisecond, 1080 * Millisecond] =
     [0, 1000 * Millisecond, 1000 * Millisecond, 1080 * Millisecond]"
    by (simp add: handler_def burst_guard_def IsZero_def Sub_def go_quot_def maxDuration_def
        minDuration_def Millisecond_def)
  from T[THEN conjunct1] s have "sorted (lastPress_trace_p ?btn ?ws)" by (rule mp)
  then have u: "sorted [0, 1000 * Millisecond, 1080 * Millisecond]" by (simp only: t)
  have s': "sorted (0 # clock_readings ?ws)" using s by simp
  have v: "sorted [0, 1000 * Millisecond, 1020 * Millisecond, 1080 * Millisecond]"
    by (simp add: Millisecond_def)
  from s' t u v c show ?thesis by (intro conjI)
qed

lemma shutdown_returns: "shutting_down w \<Longrightarrow> monitor_body btn w = Return"
  by (simp add: monitor_body_def)

lemma Stop_p_again:
  assumes "Stop_p bm [] = Some bm1"
  shows "\<exists>bm2. Stop_p bm1 [] = Some bm2 \<and> buttons_p bm2 = buttons_p bm1 \<and>
           cancelled_p bm2 = cancelled_p bm1 \<and> wg_p bm2 = wg_p bm1 \<and>
           spawned_p bm2 = spawned_p bm1 \<and> dispatched_p bm2 = dispatched_p bm1"
  using assms
  by (auto simp: Stop_p_def wg_Wait_def cancel_p_def haltAllPins_def fold_halt_fields
      split: if_splits)

lemma fold_close_buttons: "buttons_c (fold close_line xs bm) = buttons_c bm"
  by (induction xs arbitrary: bm) (auto simp: close_line_def split: option.splits)

lemma Stop_c_again: "buttons_c (Stop_c (Stop_c bm)) = buttons_c (Stop_c bm)"
  by (simp add: Stop_c_def fold_close_buttons)

subsection \<open>The claims on the debounce gate and on unresolved identifiers\<close>

lemma monitor_body_press_wake:
  "monitor_body btn (press_wake c u) =
     (if Sub c (lastPress_p btn) > DebounceTime_p (config_p btn)
      then Press (updateLastPress btn u) (invokeCallback (updateLastPress btn u)) else Idle)"
  by (simp add: monitor_body_def press_wake_def isPressed_def isDebouncePassed_def Since_def
      Let_def)

lemma decisions_p_gate:
  "is_Duration (DebounceTime_p (config_p btn)) \<Longrightarrow>
   DebounceTime_p (config_p btn) < maxDuration \<Longrightarrow>
   decisions_p btn (map (case_prod press_wake) ps) =
     gate_two_readings (DebounceTime_p (config_p btn)) (lastPress_p btn) ps"
proof (induction ps arbitrary: btn)
  case Nil
  then show ?case by simp
next
  case (Cons p ps)
  obtain c u where p: "p = (c, u)" by (cases p)
  show ?case
  proof (cases "Sub c (lastPress_p btn) > DebounceTime_p (config_p btn)")
    case True
    have k: "config_p (updateLastPress btn u) = config_p btn"
      "lastPress_p (updateLastPress btn u) = u"
      by (simp_all add: updateLastPress_def)
    from True Cons.prems have "c - lastPress_p btn > DebounceTime_p (config_p btn)"
      by (simp add: Sub_gt_iff)
    with True Cons.IH[of "updateLastPress btn u"] Cons.prems k p show ?thesis
      by (simp add: monitor_body_press_wake)
  next
    case False
    with Cons.prems have "\<not> c - lastPress_p btn > DebounceTime_p (config_p btn)"
      by (simp add: Sub_gt_iff)
    with False Cons.IH[of btn] Cons.prems p show ?thesis
      by (simp add: monitor_body_press_wake)
  qed
qed

lemma decisions_p_negative:
  "DebounceTime_p (config_p btn) < 0 \<Longrightarrow> sorted (lastPress_p btn # ts) \<Longrightarrow>
   decisions_p btn (map press_at ts) = replicate (length ts) True"
proof (induction ts arbitrary: btn)
  case Nil
  then show ?case by simp
next
  case (Cons t ts)
  from Cons.prems have le: "lastPress_p btn \<le> t" by simp
  with Cons.prems(1) have g: "Sub t (lastPress_p btn) > DebounceTime_p (config_p btn)"
    by (auto simp: Sub_def maxDuration_def minDuration_def)
  have k: "config_p (updateLastPress btn t) = config_p btn"
    "lastPress_p (updateLastPress btn t) = t"
    by (simp_all add: updateLastPress_def)
  from Cons.prems have s: "sorted (t # ts)" by simp
  from Cons.IH[of "updateLastPress btn t"] Cons.prems(1) s k g show ?case
    by (simp add: monitor_body_press_at)
qed

lemma DebounceTime_apply_defaults_p:
  "DebounceTime_p (apply_defaults_p host cfg) =
     (if DebounceTime_p cfg = 0 then defaultDebounceTime else DebounceTime_p cfg)"
  by (simp add: apply_defaults_p_def Let_def)

lemma DebounceTime_apply_defaults_c:
  "DebounceTime_c (apply_defaults_c cfg) =
     (if DebounceTime_c cfg = 0 then defaultDebounceTime else DebounceTime_c cfg)"
  by (simp add: apply_defaults_c_def)

lemma defaultDebounceTime_bounds:
  "is_Duration defaultDebounceTime" "defaultDebounceTime < maxDuration"
  "0 < defaultDebounceTime"
  by (simp_all add: defaultDebounceTime_def Millisecond_def is_Duration_def minDuration_def
      maxDuration_def)

lemma AddButton_p_stored:
  assumes ok: "fst (AddButton_p host bm cfg) = None"
  shows "\<exists>pin. map_of (buttons_p (snd (AddButton_p host bm cfg))) (PinName_p cfg) =
           Some \<lparr>pin_p = pin, config_p = apply_defaults_p host cfg, lastPress_p = 0\<rparr>"
proof -
  from AddButton_p_ok[OF ok] obtain p where
    s: "snd (AddButton_p host bm cfg) =
          bm\<lparr>hw_p := Call_In p (Pull_p (apply_defaults_p host cfg)) gpio_BothEdges # hw_p bm,
             buttons_p := AList.update (PinName_p cfg)
               \<lparr>pin_p = p, config_p = apply_defaults_p host cfg, lastPress_p = 0\<rparr>
               (buttons_p bm)\<rparr>" by blast
  show ?thesis by (simp add: s update_conv')
qed

lemma AddButton_p_gate:
  assumes ok: "fst (AddButton_p host bm cfg) = None"
  shows "case map_of (buttons_p (snd (AddButton_p host bm cfg))) (PinName_p cfg) of
           None \<Rightarrow> False
         | Some b \<Rightarrow>
             lastPress_p b = 0 \<and>
             DebounceTime_p (config_p b) =
               (if DebounceTime_p cfg = 0 then defaultDebounceTime else DebounceTime_p cfg) \<and>
             DebounceTime_p (config_p b) \<noteq> 0 \<and>
             (DebounceTime_p cfg = 0 \<longrightarrow>
                decisions_p b (map press_at tsd) = spec_consider defaultDebounceTime 0 tsd)"
proof -
  from AddButton_p_stored[OF ok] obtain pin where
    s: "map_of (buttons_p (snd (AddButton_p host bm cfg))) (PinName_p cfg) =
          Some \<lparr>pin_p = pin, config_p = apply_defaults_p host cfg, lastPress_p = 0\<rparr>"
    by blast
  have d: "DebounceTime_p cfg = 0 \<Longrightarrow>
           decisions_p \<lparr>pin_p = pin, config_p = apply_defaults_p host cfg, lastPress_p = 0\<rparr>
             (map press_at tsd) = spec_consider defaultDebounceTime 0 tsd"
    using decisions_p_spec
      [of "\<lparr>pin_p = pin, config_p = apply_defaults_p host cfg, lastPress_p = 0\<rparr>" tsd]
      defaultDebounceTime_bounds
    by (simp add: DebounceTime_apply_defaults_p)
  from d defaultDebounceTime_bounds(3) show ?thesis
    by (simp add: s DebounceTime_apply_defaults_p)
qed

lemma AddButton_c_gate:
  assumes ok: "fst (AddButton_c req bm cfg) = None"
  shows "case hw_c (snd (AddButton_c req bm cfg)) of
           [] \<Rightarrow> False
         | Call_RequestLine ch ofs won # rest \<Rightarrow>
             \<not> isl (req ch ofs won) \<and> handler_of won = Some (apply_defaults_c cfg, ch, ofs)
         | Call_Close l # rest \<Rightarrow> False"
proof -
  from AddButton_c_granted[OF ok] obtain chip off won l rest where
    w: "won \<in> set (combos (apply_defaults_c cfg) chip off)"
    and l: "req chip off won = Inr l"
    and h: "hw_c (snd (AddButton_c req bm cfg)) = Call_RequestLine chip off won # rest"
    by blast
  from combos_handler[OF w] l show ?thesis
    by (simp add: h)
qed

lemma default_guard:
  assumes "DebounceTime_c cfg = 0"
  shows "(\<not> burst_guard (apply_defaults_c cfg) last_t now) =
           (last_t = 0 \<or> now - last_t > defaultDebounceTime div 2)"
  using assms burst_guard_iff[of "apply_defaults_c cfg" last_t now] defaultDebounceTime_bounds
  by (simp add: DebounceTime_apply_defaults_c)

text \<open>
  Claim C1, as the code has it. In the poll variant the loop accepts a candidate press iff
  the reading of its debounce check is more than the window after the last stored reading
  (for every window below the greatest \<^verbatim>\<open>Duration\<close>), and then stores the reading of
  \<^verbatim>\<open>updateLastPress\<close>; when the two readings of every candidate coincide this is the gate
  of the specification, so a distance of exactly the window is rejected. In the push
  variant the handler accepts iff the window is not positive, or no press has been accepted
  yet, or the distance is greater than half the window. A configured window of 0 never
  reaches either gate: the button that a successful \<^verbatim>\<open>AddButton\<close> stores has no press
  recorded and the configured window, with 50 ms in the place of 0, and the handler of the
  granted request is the one of that configuration; so under a configured 0 the poll
  variant is the gate of 50 ms and the push variant accepts iff no press has been accepted
  yet or the distance is greater than 25 ms. Only a negative window makes both accept every
  candidate of a sequence that does not decrease.
\<close>

theorem debounce_gate_per_variant:
  "(is_Duration (DebounceTime_p (config_p btn)) \<and> DebounceTime_p (config_p btn) < maxDuration \<longrightarrow>
      decisions_p btn (map (case_prod press_wake) ps) =
        gate_two_readings (DebounceTime_p (config_p btn)) (lastPress_p btn) ps \<and>
      decisions_p btn (map press_at ts) =
        spec_consider (DebounceTime_p (config_p btn)) (lastPress_p btn) ts) \<and>
   (is_Duration (DebounceTime_c config) \<longrightarrow>
      (\<not> burst_guard config last_t now) =
        (DebounceTime_c config \<le> 0 \<or> last_t = 0 \<or>
         now - last_t > DebounceTime_c config div 2) \<and>
      fst (handler config chip off last_t now) =
        (if burst_guard config last_t now then last_t else now) \<and>
      (burst_guard config last_t now \<longrightarrow> snd (handler config chip off last_t now) = [])) \<and>
   (fst (AddButton_p host bm cfg) = None \<longrightarrow>
      (case map_of (buttons_p (snd (AddButton_p host bm cfg))) (PinName_p cfg) of
         None \<Rightarrow> False
       | Some b \<Rightarrow>
           lastPress_p b = 0 \<and>
           DebounceTime_p (config_p b) =
             (if DebounceTime_p cfg = 0 then defaultDebounceTime else DebounceTime_p cfg) \<and>
           DebounceTime_p (config_p b) \<noteq> 0 \<and>
           (DebounceTime_p cfg = 0 \<longrightarrow>
              decisions_p b (map press_at tsd) = spec_consider defaultDebounceTime 0 tsd))) \<and>
   (fst (AddButton_c req bmc cfgc) = None \<longrightarrow>
      (case hw_c (snd (AddButton_c req bmc cfgc)) of
         [] \<Rightarrow> False
       | Call_RequestLine ch ofs won # rest \<Rightarrow>
           \<not> isl (req ch ofs won) \<and> handler_of won = Some (apply_defaults_c cfgc, ch, ofs)
       | Call_Close l # rest \<Rightarrow> False) \<and>
      DebounceTime_c (apply_defaults_c cfgc) =
        (if DebounceTime_c cfgc = 0 then defaultDebounceTime else DebounceTime_c cfgc) \<and>
      DebounceTime_c (apply_defaults_c cfgc) \<noteq> 0 \<and>
      (DebounceTime_c cfgc = 0 \<longrightarrow>
         (\<not> burst_guard (apply_defaults_c cfgc) lastd nowd) =
           (lastd = 0 \<or> nowd - lastd > defaultDebounceTime div 2))) \<and>
   (DebounceTime_p (config_p nbtn) < 0 \<and> sorted (lastPress_p nbtn # nts) \<longrightarrow>
      decisions_p nbtn (map press_at nts) = replicate (length nts) True) \<and>
   (DebounceTime_c nconfig < 0 \<longrightarrow>
      decisions_c nconfig nchip noff nlast nts = replicate (length nts) True)"
proof -
  have c1: "is_Duration (DebounceTime_p (config_p btn)) \<and>
            DebounceTime_p (config_p btn) < maxDuration \<longrightarrow>
      decisions_p btn (map (case_prod press_wake) ps) =
        gate_two_readings (DebounceTime_p (config_p btn)) (lastPress_p btn) ps \<and>
      decisions_p btn (map press_at ts) =
        spec_consider (DebounceTime_p (config_p btn)) (lastPress_p btn) ts"
    by (simp add: decisions_p_gate decisions_p_spec)
  have c2: "is_Duration (DebounceTime_c config) \<longrightarrow>
      (\<not> burst_guard config last_t now) =
        (DebounceTime_c config \<le> 0 \<or> last_t = 0 \<or>
         now - last_t > DebounceTime_c config div 2) \<and>
      fst (handler config chip off last_t now) =
        (if burst_guard config last_t now then last_t else now) \<and>
      (burst_guard config last_t now \<longrightarrow> snd (handler config chip off last_t now) = [])"
    using burst_guard_iff[of config last_t now] by (simp add: handler_def)
  have c3: "fst (AddButton_p host bm cfg) = None \<longrightarrow>
      (case map_of (buttons_p (snd (AddButton_p host bm cfg))) (PinName_p cfg) of
         None \<Rightarrow> False
       | Some b \<Rightarrow>
           lastPress_p b = 0 \<and>
           DebounceTime_p (config_p b) =
             (if DebounceTime_p cfg = 0 then defaultDebounceTime else DebounceTime_p cfg) \<and>
           DebounceTime_p (config_p b) \<noteq> 0 \<and>
           (DebounceTime_p cfg = 0 \<longrightarrow>
              decisions_p b (map press_at tsd) = spec_consider defaultDebounceTime 0 tsd))"
    using AddButton_p_gate[of host bm cfg tsd] by (rule impI)
  have c4: "fst (AddButton_c req bmc cfgc) = None \<longrightarrow>
      (case hw_c (snd (AddButton_c req bmc cfgc)) of
         [] \<Rightarrow> False
       | Call_RequestLine ch ofs won # rest \<Rightarrow>
           \<not> isl (req ch ofs won) \<and> handler_of won = Some (apply_defaults_c cfgc, ch, ofs)
       | Call_Close l # rest \<Rightarrow> False) \<and>
      DebounceTime_c (apply_defaults_c cfgc) =
        (if DebounceTime_c cfgc = 0 then defaultDebounceTime else DebounceTime_c cfgc) \<and>
      DebounceTime_c (apply_defaults_c cfgc) \<noteq> 0 \<and>
      (DebounceTime_c cfgc = 0 \<longrightarrow>
         (\<not> burst_guard (apply_defaults_c cfgc) lastd nowd) =
           (lastd = 0 \<or> nowd - lastd > defaultDebounceTime div 2))"
  proof (intro impI conjI)
    assume "fst (AddButton_c req bmc cfgc) = None"
    then show "case hw_c (snd (AddButton_c req bmc cfgc)) of
         [] \<Rightarrow> False
       | Call_RequestLine ch ofs won # rest \<Rightarrow>
           \<not> isl (req ch ofs won) \<and> handler_of won = Some (apply_defaults_c cfgc, ch, ofs)
       | Call_Close l # rest \<Rightarrow> False"
      by (rule AddButton_c_gate)
  next
    show "DebounceTime_c (apply_defaults_c cfgc) =
        (if DebounceTime_c cfgc = 0 then defaultDebounceTime else DebounceTime_c cfgc)"
      by (rule DebounceTime_apply_defaults_c)
  next
    show "DebounceTime_c (apply_defaults_c cfgc) \<noteq> 0"
      using defaultDebounceTime_bounds(3) by (simp add: DebounceTime_apply_defaults_c)
  next
    assume "DebounceTime_c cfgc = 0"
    then show "(\<not> burst_guard (apply_defaults_c cfgc) lastd nowd) =
           (lastd = 0 \<or> nowd - lastd > defaultDebounceTime div 2)"
      by (rule default_guard)
  qed
  have c5: "DebounceTime_p (config_p nbtn) < 0 \<and> sorted (lastPress_p nbtn # nts) \<longrightarrow>
      decisions_p nbtn (map press_at nts) = replicate (length nts) True"
    using decisions_p_negative[of nbtn nts] by blast
  have c6: "DebounceTime_c nconfig < 0 \<longrightarrow>
      decisions_c nconfig nchip noff nlast nts = replicate (length nts) True"
    by (simp add: decisions_c_nonpositive)
  from c1 c2 c3 c4 c5 c6 show ?thesis by (intro conjI)
qed

theorem debounce_gate_per_variant_witness:
  "fst (AddButton_p one_pin NewButtonManager_p
          \<lparr>PinName_p = ''GPIO1_A0'', Callback_p = Some 0, DebounceTime_p = 0,
           Pull_p = 0\<rparr>) = None \<and>
   map_of (buttons_p (snd (AddButton_p one_pin NewButtonManager_p
          \<lparr>PinName_p = ''GPIO1_A0'', Callback_p = Some 0, DebounceTime_p = 0,
           Pull_p = 0\<rparr>))) ''GPIO1_A0'' =
     Some \<lparr>pin_p = 0,
           config_p = \<lparr>PinName_p = ''GPIO1_A0'', Callback_p = Some 0,
                       DebounceTime_p = 50 * Millisecond, Pull_p = 0\<rparr>,
           lastPress_p = 0\<rparr> \<and>
   is_Duration (50 * Millisecond) \<and> 50 * Millisecond < maxDuration \<and>
   decisions_p
     \<lparr>pin_p = 0,
      config_p = \<lparr>PinName_p = ''GPIO1_A0'', Callback_p = Some 0,
                  DebounceTime_p = 50 * Millisecond, Pull_p = 0\<rparr>,
      lastPress_p = 0\<rparr>
     (map press_at [1000 * Millisecond, 1030 * Millisecond, 1080 * Millisecond]) =
     [True, False, True] \<and>
   decisions_p
     \<lparr>pin_p = 0,
      config_p = \<lparr>PinName_p = ''GPIO1_A0'', Callback_p = Some 0,
                  DebounceTime_p = 50 * Millisecond, Pull_p = 0\<rparr>,
      lastPress_p = 0\<rparr>
     (map (case_prod press_wake)
        [(1000 * Millisecond, 1001 * Millisecond), (1051 * Millisecond, 1051 * Millisecond),
         (1052 * Millisecond, 1053 * Millisecond)]) =
     [True, False, True] \<and>
   fst (AddButton_c accept_all NewButtonManager_c
          \<lparr>PinName_c = ''23'', Callback_c = Some 0, DebounceTime_c = 0,
           Pull_c = PullNoChange, ActiveLow_c = True\<rparr>) = None \<and>
   handler_of
     (case hd (hw_c (snd (AddButton_c accept_all NewButtonManager_c
          \<lparr>PinName_c = ''23'', Callback_c = Some 0, DebounceTime_c = 0,
           Pull_c = PullNoChange, ActiveLow_c = True\<rparr>))) of
        Call_RequestLine ch ofs won \<Rightarrow> won
      | Call_Close l \<Rightarrow> []) =
     Some (\<lparr>PinName_c = ''23'', Callback_c = Some 0, DebounceTime_c = 50 * Millisecond,
            Pull_c = PullNoChange, ActiveLow_c = True\<rparr>, ''gpiochip0'', 23) \<and>
   burst_guard
     \<lparr>PinName_c = ''23'', Callback_c = Some 0, DebounceTime_c = 50 * Millisecond,
      Pull_c = PullNoChange, ActiveLow_c = True\<rparr>
     (1000 * Millisecond) (1025 * Millisecond) \<and>
   \<not> burst_guard
       \<lparr>PinName_c = ''23'', Callback_c = Some 0, DebounceTime_c = 50 * Millisecond,
        Pull_c = PullNoChange, ActiveLow_c = True\<rparr>
       (1000 * Millisecond) (1030 * Millisecond) \<and>
   map_of (buttons_p (snd (AddButton_p one_pin NewButtonManager_p
          \<lparr>PinName_p = ''GPIO1_A0'', Callback_p = Some 0,
           DebounceTime_p = - (5 * Millisecond), Pull_p = 0\<rparr>))) ''GPIO1_A0'' =
     Some \<lparr>pin_p = 0,
           config_p = \<lparr>PinName_p = ''GPIO1_A0'', Callback_p = Some 0,
                       DebounceTime_p = - (5 * Millisecond), Pull_p = 0\<rparr>,
           lastPress_p = 0\<rparr> \<and>
   sorted [0, 1000 * Millisecond, 1000 * Millisecond, 1001 * Millisecond] \<and>
   decisions_p
     \<lparr>pin_p = 0,
      config_p = \<lparr>PinName_p = ''GPIO1_A0'', Callback_p = Some 0,
                  DebounceTime_p = - (5 * Millisecond), Pull_p = 0\<rparr>,
      lastPress_p = 0\<rparr>
     (map press_at [1000 * Millisecond, 1000 * Millisecond, 1001 * Millisecond]) =
     [True, True, True] \<and>
   decisions_c
     \<lparr>PinName_c = ''23'', Callback_c = Some 0, DebounceTime_c = - (5 * Millisecond),
      Pull_c = PullNoChange, ActiveLow_c = True\<rparr>
     ''gpiochip0'' 23 0
     [1000 * Millisecond, 1000 * Millisecond, 1001 * Millisecond] = [True, True, True]"
proof -
  let ?cfg = "\<lparr>PinName_p = ''GPIO1_A0'', Callback_p = Some 0, DebounceTime_p = 0,
               Pull_p = 0\<rparr>"
  let ?btn = "\<lparr>pin_p = 0,
      config_p = \<lparr>PinName_p = ''GPIO1_A0'', Callback_p = Some 0,
                  DebounceTime_p = 50 * Millisecond, Pull_p = 0\<rparr>,
      lastPress_p = 0\<rparr>"
  let ?ts = "[1000 * Millisecond, 1030 * Millisecond, 1080 * Millisecond]"
  let ?ps = "[(1000 * Millisecond, 1001 * Millisecond), (1051 * Millisecond, 1051 * Millisecond),
         (1052 * Millisecond, 1053 * Millisecond)]"
  let ?cfgc = "\<lparr>PinName_c = ''23'', Callback_c = Some 0, DebounceTime_c = 0,
           Pull_c = PullNoChange, ActiveLow_c = True\<rparr>"
  let ?cfgd = "\<lparr>PinName_c = ''23'', Callback_c = Some 0, DebounceTime_c = 50 * Millisecond,
      Pull_c = PullNoChange, ActiveLow_c = True\<rparr>"
  let ?nbtn = "\<lparr>pin_p = 0,
      config_p = \<lparr>PinName_p = ''GPIO1_A0'', Callback_p = Some 0,
                  DebounceTime_p = - (5 * Millisecond), Pull_p = 0\<rparr>,
      lastPress_p = 0\<rparr>"
  let ?ncfgp = "\<lparr>PinName_p = ''GPIO1_A0'', Callback_p = Some 0,
           DebounceTime_p = - (5 * Millisecond), Pull_p = 0\<rparr>"
  let ?ncfg = "\<lparr>PinName_c = ''23'', Callback_c = Some 0, DebounceTime_c = - (5 * Millisecond),
      Pull_c = PullNoChange, ActiveLow_c = True\<rparr>"
  let ?nts = "[1000 * Millisecond, 1000 * Millisecond, 1001 * Millisecond]"
  note T = debounce_gate_per_variant
    [where btn = ?btn and ps = ?ps and ts = ?ts and config = ?cfgd
       and last_t = "1000 * Millisecond" and now = "1025 * Millisecond"
       and chip = "''gpiochip0''" and off = 23
       and host = one_pin and bm = NewButtonManager_p and cfg = ?cfg and tsd = ?ts
       and req = accept_all and bmc = NewButtonManager_c and cfgc = ?cfgc
       and lastd = "1000 * Millisecond" and nowd = "1030 * Millisecond"
       and nbtn = ?nbtn and nts = ?nts and nconfig = ?ncfg and nchip = "''gpiochip0''"
       and noff = 23 and nlast = 0]
  have a: "apply_defaults_c ?cfgc = ?cfgd"
    by (simp add: apply_defaults_c_def defaultDebounceTime_def)
  have p: "fst (AddButton_p one_pin NewButtonManager_p ?cfg) = None"
    by (simp add: AddButton_p_first)
  have m: "map_of (buttons_p (snd (AddButton_p one_pin NewButtonManager_p ?cfg))) ''GPIO1_A0'' =
             Some ?btn"
    by (simp add: AddButton_p_first)
  have d: "is_Duration (50 * Millisecond)" "50 * Millisecond < maxDuration"
    "is_Duration (DebounceTime_c ?cfgd)"
    by (simp_all add: is_Duration_def minDuration_def maxDuration_def Millisecond_def)
  from d have h1: "is_Duration (DebounceTime_p (config_p ?btn)) \<and>
                   DebounceTime_p (config_p ?btn) < maxDuration" by simp
  from T[THEN conjunct1] h1
  have g: "decisions_p ?btn (map (case_prod press_wake) ?ps) =
             gate_two_readings (DebounceTime_p (config_p ?btn)) (lastPress_p ?btn) ?ps \<and>
           decisions_p ?btn (map press_at ?ts) =
             spec_consider (DebounceTime_p (config_p ?btn)) (lastPress_p ?btn) ?ts"
    by (rule mp)
  from g have g1: "decisions_p ?btn (map (case_prod press_wake) ?ps) = [True, False, True]"
    by (simp add: Millisecond_def)
  from g have g2: "decisions_p ?btn (map press_at ?ts) = [True, False, True]"
    by (simp add: Millisecond_def)
  from T[THEN conjunct2, THEN conjunct1] d(3)
  have b: "(\<not> burst_guard ?cfgd (1000 * Millisecond) (1025 * Millisecond)) =
             (DebounceTime_c ?cfgd \<le> 0 \<or> 1000 * Millisecond = 0 \<or>
              1025 * Millisecond - 1000 * Millisecond > DebounceTime_c ?cfgd div 2) \<and>
           fst (handler ?cfgd ''gpiochip0'' 23 (1000 * Millisecond) (1025 * Millisecond)) =
             (if burst_guard ?cfgd (1000 * Millisecond) (1025 * Millisecond)
              then 1000 * Millisecond else 1025 * Millisecond) \<and>
           (burst_guard ?cfgd (1000 * Millisecond) (1025 * Millisecond) \<longrightarrow>
              snd (handler ?cfgd ''gpiochip0'' 23 (1000 * Millisecond) (1025 * Millisecond)) = [])"
    by (rule mp)
  from b have b1: "burst_guard ?cfgd (1000 * Millisecond) (1025 * Millisecond)"
    by (simp add: Millisecond_def)
  have c: "fst (AddButton_c accept_all NewButtonManager_c ?cfgc) = None"
    by (simp add: AddButton_c_first)
  have k: "handler_of
     (case hd (hw_c (snd (AddButton_c accept_all NewButtonManager_c ?cfgc))) of
        Call_RequestLine ch ofs won \<Rightarrow> won
      | Call_Close l \<Rightarrow> []) = Some (?cfgd, ''gpiochip0'', 23)"
    by (simp add: AddButton_c_first)
  from T[THEN conjunct2, THEN conjunct2, THEN conjunct2, THEN conjunct1] c
  have q: "(case hw_c (snd (AddButton_c accept_all NewButtonManager_c ?cfgc)) of
         [] \<Rightarrow> False
       | Call_RequestLine ch ofs won # rest \<Rightarrow>
           \<not> isl (accept_all ch ofs won) \<and>
           handler_of won = Some (apply_defaults_c ?cfgc, ch, ofs)
       | Call_Close l # rest \<Rightarrow> False) \<and>
      DebounceTime_c (apply_defaults_c ?cfgc) =
        (if DebounceTime_c ?cfgc = 0 then defaultDebounceTime else DebounceTime_c ?cfgc) \<and>
      DebounceTime_c (apply_defaults_c ?cfgc) \<noteq> 0 \<and>
      (DebounceTime_c ?cfgc = 0 \<longrightarrow>
         (\<not> burst_guard (apply_defaults_c ?cfgc) (1000 * Millisecond) (1030 * Millisecond)) =
           (1000 * Millisecond = 0 \<or>
            1030 * Millisecond - 1000 * Millisecond > defaultDebounceTime div 2))"
    by (rule mp)
  from q have b2: "\<not> burst_guard ?cfgd (1000 * Millisecond) (1030 * Millisecond)"
    by (simp add: a defaultDebounceTime_def Millisecond_def)
  have mn: "map_of (buttons_p (snd (AddButton_p one_pin NewButtonManager_p ?ncfgp)))
              ''GPIO1_A0'' = Some ?nbtn"
    by (simp add: AddButton_p_def one_pin_def NewButtonManager_p_def apply_defaults_p_def
        defaultPull_def Millisecond_def Let_def)
  have s: "sorted [0, 1000 * Millisecond, 1000 * Millisecond, 1001 * Millisecond]"
    by (simp add: Millisecond_def)
  then have h5: "DebounceTime_p (config_p ?nbtn) < 0 \<and> sorted (lastPress_p ?nbtn # ?nts)"
    by (simp add: Millisecond_def)
  from T[THEN conjunct2, THEN conjunct2, THEN conjunct2, THEN conjunct2, THEN conjunct1] h5
  have n1: "decisions_p ?nbtn (map press_at ?nts) = replicate (length ?nts) True"
    by (rule mp)
  have h6: "DebounceTime_c ?ncfg < 0" by (simp add: Millisecond_def)
  from T[THEN conjunct2, THEN conjunct2, THEN conjunct2, THEN conjunct2, THEN conjunct2] h6
  have n2: "decisions_c ?ncfg ''gpiochip0'' 23 0 ?nts =
              replicate (length ?nts) True"
    by (rule mp)
  from n1 have n1': "decisions_p ?nbtn (map press_at ?nts) = [True, True, True]"
    by (simp add: numeral_3_eq_3)
  from n2 have n2': "decisions_c ?ncfg ''gpiochip0'' 23 0 ?nts =
                       [True, True, True]"
    by (simp add: numeral_3_eq_3)
  from p m d(1) d(2) g2 g1 c k b1 b2 mn s n1' n2' show ?thesis
    by (intro conjI)
qed

text \<open>
  Claim C1 as stated fails on the push variant: with a window of 100 ms, a press 100 ms
  after the last accepted one is accepted by the handler, and rejected by the gate of the
  claim. It fails on a window of 0 too: the button registered with a window of 0 in the
  poll variant rejects a press 30 ms after the last accepted one.
\<close>

theorem debounce_gate_counterexample:
  "decisions_c
     \<lparr>PinName_c = ''23'', Callback_c = Some 0, DebounceTime_c = 100 * Millisecond,
      Pull_c = PullUp, ActiveLow_c = True\<rparr>
     ''gpiochip0'' 23 0 [1000 * Millisecond, 1100 * Millisecond] = [True, True] \<and>
   spec_consider (100 * Millisecond) 0 [1000 * Millisecond, 1100 * Millisecond] =
     [True, False] \<and>
   (case map_of (buttons_p (snd (AddButton_p one_pin NewButtonManager_p
            \<lparr>PinName_p = ''GPIO1_A0'', Callback_p = Some 0, DebounceTime_p = 0,
             Pull_p = 0\<rparr>))) ''GPIO1_A0'' of
      None \<Rightarrow> []
    | Some b \<Rightarrow> decisions_p b (map press_at [1000 * Millisecond, 1030 * Millisecond])) =
     [True, False] \<and>
   spec_consider 0 0 [1000 * Millisecond, 1030 * Millisecond] = [True, True]"
  by (simp add: AddButton_p_first)
     (simp add: burst_guard_def handler_def IsZero_def Sub_def go_quot_def Millisecond_def
      maxDuration_def minDuration_def monitor_body_press_at updateLastPress_def)

lemma resolve_chip9: "resolveChipLine ''gpiochip9:999'' = Inr (''gpiochip9'', 999)"
  by code_simp

lemma no_lines_refuses: "isl (no_lines chip off opts)"
  by (simp add: no_lines_def)

lemma AddButton_c_no_lines:
  "AddButton_c no_lines NewButtonManager_c
     \<lparr>PinName_c = ''gpiochip9:999'', Callback_c = Some 0, DebounceTime_c = 0,
      Pull_c = PullUp, ActiveLow_c = True\<rparr> =
     (Some (FailedToRequestLine ''gpiochip9'' 999 ''no such file or directory''),
      \<lparr>buttons_c = [],
       hw_c =
         [Call_RequestLine ''gpiochip9'' 999
            [AsInput, WithConsumer ''gpio-buttons-go'', WithRisingEdge, AsActiveLow,
             WithEventHandler
               \<lparr>PinName_c = ''gpiochip9:999'', Callback_c = Some 0,
                DebounceTime_c = 50 * Millisecond, Pull_c = PullUp, ActiveLow_c = True\<rparr>
               ''gpiochip9'' 999],
          Call_RequestLine ''gpiochip9'' 999
            [AsInput, WithConsumer ''gpio-buttons-go'', WithRisingEdge, AsActiveLow,
             WithEventHandler
               \<lparr>PinName_c = ''gpiochip9:999'', Callback_c = Some 0,
                DebounceTime_c = 50 * Millisecond, Pull_c = PullUp, ActiveLow_c = True\<rparr>
               ''gpiochip9'' 999,
             WithPullUp],
          Call_RequestLine ''gpiochip9'' 999
            [AsInput, WithConsumer ''gpio-buttons-go'', WithRisingEdge, AsActiveLow,
             WithEventHandler
               \<lparr>PinName_c = ''gpiochip9:999'', Callback_c = Some 0,
                DebounceTime_c = 50 * Millisecond, Pull_c = PullUp, ActiveLow_c = True\<rparr>
               ''gpiochip9'' 999,
             WithDebounce (50 * Millisecond)],
          Call_RequestLine ''gpiochip9'' 999
            [AsInput, WithConsumer ''gpio-buttons-go'', WithRisingEdge, AsActiveLow,
             WithEventHandler
               \<lparr>PinName_c = ''gpiochip9:999'', Callback_c = Some 0,
                DebounceTime_c = 50 * Millisecond, Pull_c = PullUp, ActiveLow_c = True\<rparr>
               ''gpiochip9'' 999,
             WithDebounce (50 * Millisecond), WithPullUp]]\<rparr>)"
  by (simp add: AddButton_c_def no_lines_def NewButtonManager_c_def apply_defaults_c_def
      defaultDebounceTime_def Let_def resolve_chip9 combos_def full_def noBias_def noDeb_def
      baseOnly_def base_def pullOption_def PullNoChange_def PullUp_def PullDown_def
      PullDisabled_def Millisecond_def)

text \<open>
  Claim C3, as the code has it. In the poll variant \<^verbatim>\<open>AddButton\<close> returns "failed to find
  pin" when \<^verbatim>\<open>gpioreg.ByName\<close> finds no pin. In the push variant a name that
  \<^verbatim>\<open>resolveChipLine\<close> cannot parse makes \<^verbatim>\<open>AddButton\<close> return the error of the parse
  ("pin name is required", "invalid line offset" or "invalid pin name") before any request;
  a name that parses is only resolved by the requests themselves, and when every request
  is refused, as it is for a line that does not exist, \<^verbatim>\<open>AddButton\<close> returns "failed to
  request line" with the cause of the last, bare request, after making all of them. Every
  \<^verbatim>\<open>AddButton\<close> that returns an error leaves the registry, and so the button count, as it
  was.
\<close>

theorem unresolved_identifier_rejected:
  "(ByName host (PinName_p cfg) = None \<longrightarrow>
      AddButton_p host bm cfg = (Some (FailedToFindPin (PinName_p cfg)), bm) \<and>
      (case fst (AddButton_p host bm cfg) of None \<Rightarrow> False | Some err \<Rightarrow> is_PinNotFound_p err) \<and>
      GetButtonCount_p (snd (AddButton_p host bm cfg)) = GetButtonCount_p bm) \<and>
   (resolveChipLine (PinName_c cfgc) = Inl e \<longrightarrow>
      AddButton_c req bmc cfgc = (Some e, bmc) \<and>
      (e = PinNameRequired \<or> (\<exists>s. e = InvalidLineOffset s) \<or> (\<exists>s. e = InvalidPinName s)) \<and>
      GetButtonCount_c (snd (AddButton_c req bmc cfgc)) = GetButtonCount_c bmc) \<and>
   (resolveChipLine (PinName_c cfgr) = Inr (chip, off) \<and>
    list_all (\<lambda>opts. isl (reqr chip off opts)) (combos (apply_defaults_c cfgr) chip off) \<longrightarrow>
      AddButton_c reqr bmr cfgr =
        (Some (FailedToRequestLine chip off
                 (projl (reqr chip off (baseOnly (apply_defaults_c cfgr) chip off)))),
         bmr\<lparr>hw_c := rev (map (Call_RequestLine chip off)
                            (combos (apply_defaults_c cfgr) chip off)) @ hw_c bmr\<rparr>) \<and>
      GetButtonCount_c (snd (AddButton_c reqr bmr cfgr)) = GetButtonCount_c bmr) \<and>
   (fst (AddButton_p host bm cfg) \<noteq> None \<longrightarrow>
      GetButtonCount_p (snd (AddButton_p host bm cfg)) = GetButtonCount_p bm) \<and>
   (fst (AddButton_c reqr bmr cfgr) \<noteq> None \<longrightarrow>
      GetButtonCount_c (snd (AddButton_c reqr bmr cfgr)) = GetButtonCount_c bmr)"
proof -
  have c1: "ByName host (PinName_p cfg) = None \<longrightarrow>
      AddButton_p host bm cfg = (Some (FailedToFindPin (PinName_p cfg)), bm) \<and>
      (case fst (AddButton_p host bm cfg) of None \<Rightarrow> False | Some err \<Rightarrow> is_PinNotFound_p err) \<and>
      GetButtonCount_p (snd (AddButton_p host bm cfg)) = GetButtonCount_p bm"
    by (simp add: AddButton_p_not_found)
  have c2: "resolveChipLine (PinName_c cfgc) = Inl e \<longrightarrow>
      AddButton_c req bmc cfgc = (Some e, bmc) \<and>
      (e = PinNameRequired \<or> (\<exists>s. e = InvalidLineOffset s) \<or> (\<exists>s. e = InvalidPinName s)) \<and>
      GetButtonCount_c (snd (AddButton_c req bmc cfgc)) = GetButtonCount_c bmc"
  proof (intro impI conjI)
    assume r: "resolveChipLine (PinName_c cfgc) = Inl e"
    then show "AddButton_c req bmc cfgc = (Some e, bmc)"
      by (rule AddButton_c_unresolved)
    then show "GetButtonCount_c (snd (AddButton_c req bmc cfgc)) = GetButtonCount_c bmc"
      by simp
    from resolveChipLine_errors[OF r]
    show "e = PinNameRequired \<or> (\<exists>s. e = InvalidLineOffset s) \<or> (\<exists>s. e = InvalidPinName s)"
      by (cases e) simp_all
  qed
  have c3: "resolveChipLine (PinName_c cfgr) = Inr (chip, off) \<and>
    list_all (\<lambda>opts. isl (reqr chip off opts)) (combos (apply_defaults_c cfgr) chip off) \<longrightarrow>
      AddButton_c reqr bmr cfgr =
        (Some (FailedToRequestLine chip off
                 (projl (reqr chip off (baseOnly (apply_defaults_c cfgr) chip off)))),
         bmr\<lparr>hw_c := rev (map (Call_RequestLine chip off)
                            (combos (apply_defaults_c cfgr) chip off)) @ hw_c bmr\<rparr>) \<and>
      GetButtonCount_c (snd (AddButton_c reqr bmr cfgr)) = GetButtonCount_c bmr"
  proof (intro impI, elim conjE)
    assume r: "resolveChipLine (PinName_c cfgr) = Inr (chip, off)"
      and f: "list_all (\<lambda>opts. isl (reqr chip off opts)) (combos (apply_defaults_c cfgr) chip off)"
    from f have f': "\<forall>opts \<in> set (combos (apply_defaults_c cfgr) chip off).
                       isl (reqr chip off opts)"
      by (simp add: list_all_iff)
    note a = AddButton_c_all_fail[where req = reqr and bm = bmr, OF r f']
    show "AddButton_c reqr bmr cfgr =
        (Some (FailedToRequestLine chip off
                 (projl (reqr chip off (baseOnly (apply_defaults_c cfgr) chip off)))),
         bmr\<lparr>hw_c := rev (map (Call_RequestLine chip off)
                            (combos (apply_defaults_c cfgr) chip off)) @ hw_c bmr\<rparr>) \<and>
      GetButtonCount_c (snd (AddButton_c reqr bmr cfgr)) = GetButtonCount_c bmr"
      by (simp add: a GetButtonCount_c_def)
  qed
  have c4: "fst (AddButton_p host bm cfg) \<noteq> None \<longrightarrow>
      GetButtonCount_p (snd (AddButton_p host bm cfg)) = GetButtonCount_p bm"
    by (simp add: AddButton_p_error_registry GetButtonCount_p_def)
  have c5: "fst (AddButton_c reqr bmr cfgr) \<noteq> None \<longrightarrow>
      GetButtonCount_c (snd (AddButton_c reqr bmr cfgr)) = GetButtonCount_c bmr"
    by (simp add: AddButton_c_error_registry GetButtonCount_c_def)
  from c1 c2 c3 c4 c5 show ?thesis by (intro conjI)
qed

theorem unresolved_identifier_rejected_witness:
  "ByName no_pins ''GPIO9_Z9'' = None \<and>
   resolveChipLine ''abc'' = Inl (InvalidPinName ''abc'') \<and>
   resolveChipLine ''gpiochip9:999'' = Inr (''gpiochip9'', 999) \<and>
   list_all (\<lambda>opts. isl (no_lines ''gpiochip9'' 999 opts))
     (combos
        (apply_defaults_c
           \<lparr>PinName_c = ''gpiochip9:999'', Callback_c = Some 0, DebounceTime_c = 0,
            Pull_c = PullUp, ActiveLow_c = True\<rparr>) ''gpiochip9'' 999) \<and>
   AddButton_p no_pins NewButtonManager_p
     \<lparr>PinName_p = ''GPIO9_Z9'', Callback_p = Some 0, DebounceTime_p = 0,
      Pull_p = 0\<rparr> =
     (Some (FailedToFindPin ''GPIO9_Z9''), NewButtonManager_p) \<and>
   AddButton_c accept_all NewButtonManager_c
     \<lparr>PinName_c = ''abc'', Callback_c = Some 0, DebounceTime_c = 0, Pull_c = PullUp,
      ActiveLow_c = True\<rparr> =
     (Some (InvalidPinName ''abc''), NewButtonManager_c) \<and>
   fst (AddButton_c no_lines NewButtonManager_c
          \<lparr>PinName_c = ''gpiochip9:999'', Callback_c = Some 0, DebounceTime_c = 0,
           Pull_c = PullUp, ActiveLow_c = True\<rparr>) =
     Some (FailedToRequestLine ''gpiochip9'' 999 ''no such file or directory'') \<and>
   GetButtonCount_c
     (snd (AddButton_c no_lines NewButtonManager_c
          \<lparr>PinName_c = ''gpiochip9:999'', Callback_c = Some 0, DebounceTime_c = 0,
           Pull_c = PullUp, ActiveLow_c = True\<rparr>)) = GetButtonCount_c NewButtonManager_c"
proof -
  let ?cfg = "\<lparr>PinName_p = ''GPIO9_Z9'', Callback_p = Some 0, DebounceTime_p = 0,
               Pull_p = 0\<rparr>"
  let ?cfgc = "\<lparr>PinName_c = ''abc'', Callback_c = Some 0, DebounceTime_c = 0, Pull_c = PullUp,
                ActiveLow_c = True\<rparr>"
  let ?cfgr = "\<lparr>PinName_c = ''gpiochip9:999'', Callback_c = Some 0, DebounceTime_c = 0,
                Pull_c = PullUp, ActiveLow_c = True\<rparr>"
  note T = unresolved_identifier_rejected
    [where host = no_pins and cfg = ?cfg and bm = NewButtonManager_p and cfgc = ?cfgc
       and e = "InvalidPinName ''abc''" and req = accept_all and bmc = NewButtonManager_c
       and cfgr = ?cfgr and chip = "''gpiochip9''" and off = 999 and reqr = no_lines
       and bmr = NewButtonManager_c]
  have h1: "ByName no_pins (PinName_p ?cfg) = None"
    by (simp add: no_pins_def)
  have h2: "resolveChipLine (PinName_c ?cfgc) = Inl (InvalidPinName ''abc'')"
    using resolve_abc by simp
  have l: "list_all (\<lambda>opts. isl (no_lines ''gpiochip9'' 999 opts))
             (combos (apply_defaults_c ?cfgr) ''gpiochip9'' 999)"
    by (simp add: list_all_iff no_lines_refuses)
  with resolve_chip9
  have h3: "resolveChipLine (PinName_c ?cfgr) = Inr (''gpiochip9'', 999) \<and>
            list_all (\<lambda>opts. isl (no_lines ''gpiochip9'' 999 opts))
              (combos (apply_defaults_c ?cfgr) ''gpiochip9'' 999)"
    by simp
  from T[THEN conjunct1] h1
  have r1: "AddButton_p no_pins NewButtonManager_p ?cfg =
              (Some (FailedToFindPin (PinName_p ?cfg)), NewButtonManager_p) \<and>
            (case fst (AddButton_p no_pins NewButtonManager_p ?cfg) of
               None \<Rightarrow> False | Some err \<Rightarrow> is_PinNotFound_p err) \<and>
            GetButtonCount_p (snd (AddButton_p no_pins NewButtonManager_p ?cfg)) =
              GetButtonCount_p NewButtonManager_p"
    by (rule mp)
  from T[THEN conjunct2, THEN conjunct1] h2
  have r2: "AddButton_c accept_all NewButtonManager_c ?cfgc =
              (Some (InvalidPinName ''abc''), NewButtonManager_c) \<and>
            (InvalidPinName ''abc'' = PinNameRequired \<or>
             (\<exists>s. InvalidPinName ''abc'' = InvalidLineOffset s) \<or>
             (\<exists>s. InvalidPinName ''abc'' = InvalidPinName s)) \<and>
            GetButtonCount_c (snd (AddButton_c accept_all NewButtonManager_c ?cfgc)) =
              GetButtonCount_c NewButtonManager_c"
    by (rule mp)
  have f: "fst (AddButton_c no_lines NewButtonManager_c ?cfgr) =
             Some (FailedToRequestLine ''gpiochip9'' 999 ''no such file or directory'')"
    by (simp add: AddButton_c_no_lines)
  then have h5: "fst (AddButton_c no_lines NewButtonManager_c ?cfgr) \<noteq> None"
    by simp
  from T[THEN conjunct2, THEN conjunct2, THEN conjunct2, THEN conjunct2] h5
  have r5: "GetButtonCount_c (snd (AddButton_c no_lines NewButtonManager_c ?cfgr)) =
              GetButtonCount_c NewButtonManager_c"
    by (rule mp)
  from T[THEN conjunct2, THEN conjunct2, THEN conjunct1] h3
  have r3: "AddButton_c no_lines NewButtonManager_c ?cfgr =
        (Some (FailedToRequestLine ''gpiochip9'' 999
                 (projl (no_lines ''gpiochip9'' 999
                    (baseOnly (apply_defaults_c ?cfgr) ''gpiochip9'' 999)))),
         NewButtonManager_c\<lparr>hw_c := rev (map (Call_RequestLine ''gpiochip9'' 999)
                            (combos (apply_defaults_c ?cfgr) ''gpiochip9'' 999)) @
                            hw_c NewButtonManager_c\<rparr>) \<and>
      GetButtonCount_c (snd (AddButton_c no_lines NewButtonManager_c ?cfgr)) =
        GetButtonCount_c NewButtonManager_c"
    by (rule mp)
  have r1': "AddButton_p no_pins NewButtonManager_p ?cfg =
               (Some (FailedToFindPin ''GPIO9_Z9''), NewButtonManager_p)"
    using r1[THEN conjunct1] by simp
  from h1 resolve_abc resolve_chip9 l r1' r2[THEN conjunct1] f r3[THEN conjunct2]
  show ?thesis
    by (intro conjI) simp_all
qed

text \<open>
  Claim C3 as stated fails on the push variant: the name \<^verbatim>\<open>gpiochip9:999\<close> parses, and on
  a host without that line \<^verbatim>\<open>AddButton\<close> makes its four requests and returns "failed to
  request line", the error of a refused configuration and not one of an unresolved
  identifier; the registry stays empty.
\<close>

theorem unresolved_identifier_counterexample:
  "AddButton_c no_lines NewButtonManager_c
     \<lparr>PinName_c = ''gpiochip9:999'', Callback_c = Some 0, DebounceTime_c = 0,
      Pull_c = PullUp, ActiveLow_c = True\<rparr> =
     (Some (FailedToRequestLine ''gpiochip9'' 999 ''no such file or directory''),
      \<lparr>buttons_c = [],
       hw_c =
         [Call_RequestLine ''gpiochip9'' 999
            [AsInput, WithConsumer ''gpio-buttons-go'', WithRisingEdge, AsActiveLow,
             WithEventHandler
               \<lparr>PinName_c = ''gpiochip9:999'', Callback_c = Some 0,
                DebounceTime_c = 50 * Millisecond, Pull_c = PullUp, ActiveLow_c = True\<rparr>
               ''gpiochip9'' 999],
          Call_RequestLine ''gpiochip9'' 999
            [AsInput, WithConsumer ''gpio-buttons-go'', WithRisingEdge, AsActiveLow,
             WithEventHandler
               \<lparr>PinName_c = ''gpiochip9:999'', Callback_c = Some 0,
                DebounceTime_c = 50 * Millisecond, Pull_c = PullUp, ActiveLow_c = True\<rparr>
               ''gpiochip9'' 999,
             WithPullUp],
          Call_RequestLine ''gpiochip9'' 999
            [AsInput, WithConsumer ''gpio-buttons-go'', WithRisingEdge, AsActiveLow,
             WithEventHandler
               \<lparr>PinName_c = ''gpiochip9:999'', Callback_c = Some 0,
                DebounceTime_c = 50 * Millisecond, Pull_c = PullUp, ActiveLow_c = True\<rparr>
               ''gpiochip9'' 999,
             WithDebounce (50 * Millisecond)],
          Call_RequestLine ''gpiochip9'' 999
            [AsInput, WithConsumer ''gpio-buttons-go'', WithRisingEdge, AsActiveLow,
             WithEventHandler
               \<lparr>PinName_c = ''gpiochip9:999'', Callback_c = Some 0,
                DebounceTime_c = 50 * Millisecond, Pull_c = PullUp, ActiveLow_c = True\<rparr>
               ''gpiochip9'' 999,
             WithDebounce (50 * Millisecond), WithPullUp]]\<rparr>) \<and>
   \<not> is_PinNotFound_c (FailedToRequestLine ''gpiochip9'' 999 ''no such file or directory'')"
  by (simp add: AddButton_c_no_lines)

subsection \<open>Runs of the poll variant\<close>

lemma AddButton_p_fields:
  "cancelled_p (snd (AddButton_p host bm cfg)) = cancelled_p bm \<and>
   wg_p (snd (AddButton_p host bm cfg)) = wg_p bm \<and>
   spawned_p (snd (AddButton_p host bm cfg)) = spawned_p bm \<and>
   dispatched_p (snd (AddButton_p host bm cfg)) = dispatched_p bm"
  by (auto simp: AddButton_p_def Let_def split: option.splits)

lemma fold_spawn_fields:
  "cancelled_p (fold spawn_monitor xs bm) = cancelled_p bm \<and>
   dispatched_p (fold spawn_monitor xs bm) = dispatched_p bm \<and>
   spawned_p (fold spawn_monitor xs bm) = spawned_p bm @ map snd xs"
  by (induction xs arbitrary: bm) (auto simp: spawn_monitor_def)

lemma Start_p_fields:
  "cancelled_p (snd (Start_p bm)) = cancelled_p bm \<and>
   dispatched_p (snd (Start_p bm)) = dispatched_p bm \<and>
   (wg_counts bm \<longrightarrow> wg_counts (snd (Start_p bm)))"
  by (simp add: Start_p_def fold_spawn_fields fold_spawn_wg wg_counts_def)

lemma deliver_fields:
  "cancelled_p (deliver x bm) = cancelled_p bm \<and>
   (wg_counts bm \<longrightarrow> wg_counts (deliver x bm)) \<and>
   (cancelled_p bm \<longrightarrow> dispatched_p (deliver x bm) = dispatched_p bm)"
  by (auto simp: deliver_def wake_monitor_def wg_Done_def wg_counts_def isShuttingDown_def
      shutdown_returns split: iteration.splits)

lemma fold_deliver_fields:
  "cancelled_p (fold deliver xs bm) = cancelled_p bm \<and>
   (wg_counts bm \<longrightarrow> wg_counts (fold deliver xs bm)) \<and>
   (cancelled_p bm \<longrightarrow> dispatched_p (fold deliver xs bm) = dispatched_p bm)"
proof (induction xs arbitrary: bm)
  case Nil
  then show ?case by simp
next
  case (Cons x xs)
  from Cons.IH[of "deliver x bm"] deliver_fields[of x bm] show ?case by simp
qed

lemma Stop_p_fields:
  assumes "Stop_p bm wakes = Some bm1"
  shows "cancelled_p bm1" and "wg_p bm1 = 0" and "wg_counts bm \<Longrightarrow> spawned_p bm1 = []"
    and "cancelled_p bm \<Longrightarrow> dispatched_p bm1 = dispatched_p bm"
    and "buttons_p bm1 = buttons_p (fold deliver wakes (cancel_p bm))"
    and "hw_p bm1 = rev (map (\<lambda>kb. Call_Halt (pin_p (snd kb))) (buttons_p bm1)) @
                    hw_p (fold deliver wakes (cancel_p bm))"
proof -
  let ?b = "fold deliver wakes (cancel_p bm)"
  from assms have w: "wg_p ?b = 0" and e: "bm1 = haltAllPins ?b"
    by (auto simp: Stop_p_def wg_Wait_def split: if_splits)
  have f: "cancelled_p ?b = cancelled_p (cancel_p bm)"
    "wg_counts (cancel_p bm) \<longrightarrow> wg_counts ?b"
    "cancelled_p (cancel_p bm) \<longrightarrow> dispatched_p ?b = dispatched_p (cancel_p bm)"
    using fold_deliver_fields[of wakes "cancel_p bm"] by simp_all
  show "cancelled_p bm1" using e f by (simp add: haltAllPins_def fold_halt_fields cancel_p_def)
  show "wg_p bm1 = 0" using e w by (simp add: haltAllPins_def fold_halt_fields)
  show "wg_counts bm \<Longrightarrow> spawned_p bm1 = []"
    using e w f by (simp add: haltAllPins_def fold_halt_fields cancel_p_def wg_counts_def)
  show "cancelled_p bm \<Longrightarrow> dispatched_p bm1 = dispatched_p bm"
    using e f by (simp add: haltAllPins_def fold_halt_fields cancel_p_def)
  show "buttons_p bm1 = buttons_p ?b" using e by (simp add: haltAllPins_def fold_halt_fields)
  show "hw_p bm1 = rev (map (\<lambda>kb. Call_Halt (pin_p (snd kb))) (buttons_p bm1)) @ hw_p ?b"
    using e by (simp add: haltAllPins_def fold_halt_fields)
qed

lemma Stop_p_dispatched:
  assumes "Stop_p bm wakes = Some bm1"
  shows "dispatched_p bm1 = dispatched_p bm"
proof -
  let ?b = "fold deliver wakes (cancel_p bm)"
  from assms have e: "bm1 = haltAllPins ?b"
    by (auto simp: Stop_p_def wg_Wait_def split: if_splits)
  have "dispatched_p ?b = dispatched_p (cancel_p bm)"
    using fold_deliver_fields[of wakes "cancel_p bm"] by (simp add: cancel_p_def)
  with e show ?thesis by (simp add: haltAllPins_def fold_halt_fields cancel_p_def)
qed

lemma Stop_p_wg_counts:
  assumes "Stop_p bm wakes = Some bm1" and "wg_counts bm"
  shows "wg_counts bm1"
  using Stop_p_fields(2,3)[OF assms(1)] assms(2) by (simp add: wg_counts_def)

lemma run_p_wg_counts:
  "run_p host cs bm = Some bm' \<Longrightarrow> wg_counts bm \<Longrightarrow> wg_counts bm'"
proof (induction host cs bm rule: run_p.induct)
  case (1 host bm)
  then show ?case by simp
next
  case (2 host config cs bm)
  then show ?case by (simp add: wg_counts_def AddButton_p_fields)
next
  case (3 host cs bm)
  then show ?case by (simp add: Start_p_fields)
next
  case (4 host wakes cs bm)
  then show ?case by (auto split: option.splits dest: Stop_p_wg_counts)
next
  case (5 host x cs bm)
  then show ?case by (simp add: deliver_fields)
qed

lemma run_p_silent:
  "run_p host cs bm = Some bm' \<Longrightarrow> cancelled_p bm \<Longrightarrow>
   cancelled_p bm' \<and> dispatched_p bm' = dispatched_p bm"
proof (induction host cs bm rule: run_p.induct)
  case (1 host bm)
  then show ?case by simp
next
  case (2 host config cs bm)
  then show ?case by (simp add: AddButton_p_fields)
next
  case (3 host cs bm)
  then show ?case by (simp add: Start_p_fields)
next
  case (4 host wakes cs bm)
  from "4.prems"(1) obtain b where s: "Stop_p bm wakes = Some b" and r: "run_p host cs b = Some bm'"
    by (auto split: option.splits)
  from "4.IH"[OF s r Stop_p_fields(1)[OF s]] Stop_p_dispatched[OF s] show ?case by simp
next
  case (5 host x cs bm)
  then show ?case by (simp add: deliver_fields)
qed

lemma is_open_halted:
  "p \<in> set ps \<Longrightarrow> \<not> is_open p (rev (map Call_Halt ps) @ hw)"
proof (induction ps arbitrary: hw rule: rev_induct)
  case Nil
  then show ?case by simp
next
  case (snoc q ps)
  then show ?case by auto
qed

lemma wg_counts_New: "wg_counts NewButtonManager_p"
  by (simp add: wg_counts_def NewButtonManager_p_def)

lemma fold_close_hw:
  "Call_Close l \<in> set (hw_c (fold close_line xs bm)) =
     (Call_Close l \<in> set (hw_c bm) \<or> (\<exists>kb \<in> set xs. line_c (snd kb) = Some l))"
  by (induction xs arbitrary: bm) (auto simp: close_line_def split: option.splits)

text \<open>
  Claim C2. In every run of the poll variant, a \<^verbatim>\<open>Stop\<close> that returns leaves no running
  monitor (the wait group has counted them all out), has halted the pin of every registered
  button, and whatever is called or woken afterwards dispatches no callback. \<^verbatim>\<open>Stop\<close> of
  the push variant has called \<^verbatim>\<open>Close\<close> on every line of the registry.
\<close>

theorem stop_joins_and_silences:
  "(run_p host cs NewButtonManager_p = Some bm \<and> Stop_p bm wakes = Some bms \<and>
    run_p host cs' bms = Some bmz \<longrightarrow>
      spawned_p bms = [] \<and> wg_p bms = 0 \<and>
      (\<forall>kb \<in> set (buttons_p bms). \<not> is_open (pin_p (snd kb)) (hw_p bms)) \<and>
      dispatched_p bmz = dispatched_p bms) \<and>
   (\<forall>kb \<in> set (buttons_c bmc). \<forall>l. line_c (snd kb) = Some l \<longrightarrow>
      Call_Close l \<in> set (hw_c (Stop_c bmc)))"
proof (intro conjI impI ballI allI)
  assume a: "run_p host cs NewButtonManager_p = Some bm \<and> Stop_p bm wakes = Some bms \<and>
    run_p host cs' bms = Some bmz"
  then have r: "run_p host cs NewButtonManager_p = Some bm" and s: "Stop_p bm wakes = Some bms"
    and r': "run_p host cs' bms = Some bmz" by auto
  have c: "wg_counts bm" using run_p_wg_counts[OF r wg_counts_New] .
  show "spawned_p bms = []" using Stop_p_fields(3)[OF s c] .
  show "wg_p bms = 0" using Stop_p_fields(2)[OF s] .
  show "dispatched_p bmz = dispatched_p bms"
    using run_p_silent[OF r' Stop_p_fields(1)[OF s]] by simp
  fix kb assume k: "kb \<in> set (buttons_p bms)"
  have "hw_p bms = rev (map Call_Halt (map (\<lambda>kb. pin_p (snd kb)) (buttons_p bms))) @
                   hw_p (fold deliver wakes (cancel_p bm))"
    using Stop_p_fields(6)[OF s] by (simp add: comp_def)
  moreover have "pin_p (snd kb) \<in> set (map (\<lambda>kb. pin_p (snd kb)) (buttons_p bms))"
    using k by simp
  ultimately show "\<not> is_open (pin_p (snd kb)) (hw_p bms)"
    using is_open_halted by metis
next
  fix kb l assume "kb \<in> set (buttons_c bmc)" and "line_c (snd kb) = Some l"
  then show "Call_Close l \<in> set (hw_c (Stop_c bmc))"
    by (auto simp: Stop_c_def fold_close_hw)
qed
lemma run_example:
  "run_p one_pin
     [Do_AddButton \<lparr>PinName_p = ''GPIO1_A0'', Callback_p = Some 0, DebounceTime_p = 0,
                    Pull_p = 0\<rparr>,
      Do_Start, Do_WakeUp (0, 0, press_at (1000 * Millisecond))]
     NewButtonManager_p =
   Some
     \<lparr>buttons_p =
        [(''GPIO1_A0'',
          \<lparr>pin_p = 0,
           config_p = \<lparr>PinName_p = ''GPIO1_A0'', Callback_p = Some 0,
                       DebounceTime_p = 50 * Millisecond, Pull_p = 0\<rparr>,
           lastPress_p = 0\<rparr>)],
      cancelled_p = False, wg_p = 1,
      spawned_p =
        [\<lparr>pin_p = 0,
          config_p = \<lparr>PinName_p = ''GPIO1_A0'', Callback_p = Some 0,
                      DebounceTime_p = 50 * Millisecond, Pull_p = 0\<rparr>,
          lastPress_p = 0\<rparr>],
      dispatched_p = [(0, ''GPIO1_A0'')],
      hw_p = [Call_In 0 0 gpio_BothEdges]\<rparr>"
  by code_simp

lemma stop_example:
  "Stop_p
     \<lparr>buttons_p =
        [(''GPIO1_A0'',
          \<lparr>pin_p = 0,
           config_p = \<lparr>PinName_p = ''GPIO1_A0'', Callback_p = Some 0,
                       DebounceTime_p = 50 * Millisecond, Pull_p = 0\<rparr>,
           lastPress_p = 0\<rparr>)],
      cancelled_p = False, wg_p = 1,
      spawned_p =
        [\<lparr>pin_p = 0,
          config_p = \<lparr>PinName_p = ''GPIO1_A0'', Callback_p = Some 0,
                      DebounceTime_p = 50 * Millisecond, Pull_p = 0\<rparr>,
          lastPress_p = 0\<rparr>],
      dispatched_p = [(0, ''GPIO1_A0'')],
      hw_p = [Call_In 0 0 gpio_BothEdges]\<rparr>
     [(0, 1000 * Millisecond, press_at (2000 * Millisecond))] =
   Some
     \<lparr>buttons_p =
        [(''GPIO1_A0'',
          \<lparr>pin_p = 0,
           config_p = \<lparr>PinName_p = ''GPIO1_A0'', Callback_p = Some 0,
                       DebounceTime_p = 50 * Millisecond, Pull_p = 0\<rparr>,
           lastPress_p = 0\<rparr>)],
      cancelled_p = True, wg_p = 0, spawned_p = [],
      dispatched_p = [(0, ''GPIO1_A0'')],
      hw_p = [Call_Halt 0, Call_In 0 0 gpio_BothEdges]\<rparr>"
  by code_simp

lemma run_after_stop_example:
  "run_p one_pin [Do_Start, Do_WakeUp (0, 1000 * Millisecond, press_at (3000 * Millisecond))]
     \<lparr>buttons_p =
        [(''GPIO1_A0'',
          \<lparr>pin_p = 0,
           config_p = \<lparr>PinName_p = ''GPIO1_A0'', Callback_p = Some 0,
                       DebounceTime_p = 50 * Millisecond, Pull_p = 0\<rparr>,
           lastPress_p = 0\<rparr>)],
      cancelled_p = True, wg_p = 0, spawned_p = [],
      dispatched_p = [(0, ''GPIO1_A0'')],
      hw_p = [Call_Halt 0, Call_In 0 0 gpio_BothEdges]\<rparr> =
   Some
     \<lparr>buttons_p =
        [(''GPIO1_A0'',
          \<lparr>pin_p = 0,
           config_p = \<lparr>PinName_p = ''GPIO1_A0'', Callback_p = Some 0,
                       DebounceTime_p = 50 * Millisecond, Pull_p = 0\<rparr>,
           lastPress_p = 0\<rparr>)],
      cancelled_p = True, wg_p = 0, spawned_p = [],
      dispatched_p = [(0, ''GPIO1_A0'')],
      hw_p = [Call_Halt 0, Call_In 0 0 gpio_BothEdges]\<rparr>"
  by code_simp

theorem stop_joins_and_silences_witness:
  "run_p one_pin
     [Do_AddButton \<lparr>PinName_p = ''GPIO1_A0'', Callback_p = Some 0, DebounceTime_p = 0,
                    Pull_p = 0\<rparr>,
      Do_Start, Do_WakeUp (0, 0, press_at (1000 * Millisecond))]
     NewButtonManager_p =
   Some
     \<lparr>buttons_p =
        [(''GPIO1_A0'',
          \<lparr>pin_p = 0,
           config_p = \<lparr>PinName_p = ''GPIO1_A0'', Callback_p = Some 0,
                       DebounceTime_p = 50 * Millisecond, Pull_p = 0\<rparr>,
           lastPress_p = 0\<rparr>)],
      cancelled_p = False, wg_p = 1,
      spawned_p =
        [\<lparr>pin_p = 0,
          config_p = \<lparr>PinName_p = ''GPIO1_A0'', Callback_p = Some 0,
                      DebounceTime_p = 50 * Millisecond, Pull_p = 0\<rparr>,
          lastPress_p = 0\<rparr>],
      dispatched_p = [(0, ''GPIO1_A0'')],
      hw_p = [Call_In 0 0 gpio_BothEdges]\<rparr> \<and>
   Stop_p
     \<lparr>buttons_p =
        [(''GPIO1_A0'',
          \<lparr>pin_p = 0,
           config_p = \<lparr>PinName_p = ''GPIO1_A0'', Callback_p = Some 0,
                       DebounceTime_p = 50 * Millisecond, Pull_p = 0\<rparr>,
           lastPress_p = 0\<rparr>)],
      cancelled_p = False, wg_p = 1,
      spawned_p =
        [\<lparr>pin_p = 0,
          config_p = \<lparr>PinName_p = ''GPIO1_A0'', Callback_p = Some 0,
                      DebounceTime_p = 50 * Millisecond, Pull_p = 0\<rparr>,
          lastPress_p = 0\<rparr>],
      dispatched_p = [(0, ''GPIO1_A0'')],
      hw_p = [Call_In 0 0 gpio_BothEdges]\<rparr>
     [(0, 1000 * Millisecond, press_at (2000 * Millisecond))] =
   Some
     \<lparr>buttons_p =
        [(''GPIO1_A0'',
          \<lparr>pin_p = 0,
           config_p = \<lparr>PinName_p = ''GPIO1_A0'', Callback_p = Some 0,
                       DebounceTime_p = 50 * Millisecond, Pull_p = 0\<rparr>,
           lastPress_p = 0\<rparr>)],
      cancelled_p = True, wg_p = 0, spawned_p = [],
      dispatched_p = [(0, ''GPIO1_A0'')],
      hw_p = [Call_Halt 0, Call_In 0 0 gpio_BothEdges]\<rparr> \<and>
   (case run_p one_pin
           [Do_Start, Do_WakeUp (0, 1000 * Millisecond, press_at (3000 * Millisecond))]
           \<lparr>buttons_p =
              [(''GPIO1_A0'',
                \<lparr>pin_p = 0,
                 config_p = \<lparr>PinName_p = ''GPIO1_A0'', Callback_p = Some 0,
                             DebounceTime_p = 50 * Millisecond, Pull_p = 0\<rparr>,
                 lastPress_p = 0\<rparr>)],
            cancelled_p = True, wg_p = 0, spawned_p = [],
            dispatched_p = [(0, ''GPIO1_A0'')],
            hw_p = [Call_Halt 0, Call_In 0 0 gpio_BothEdges]\<rparr> of
      None \<Rightarrow> False
    | Some bm2 \<Rightarrow> dispatched_p bm2 = [(0, ''GPIO1_A0'')]) \<and>
   \<not> is_open 0 [Call_Halt 0, Call_In 0 0 gpio_BothEdges]"
proof -
  let ?cfg = "\<lparr>PinName_p = ''GPIO1_A0'', Callback_p = Some 0,
               DebounceTime_p = 50 * Millisecond, Pull_p = 0\<rparr>"
  let ?btn = "\<lparr>pin_p = 0, config_p = ?cfg, lastPress_p = 0\<rparr>"
  let ?bm = "\<lparr>buttons_p = [(''GPIO1_A0'', ?btn)], cancelled_p = False, wg_p = 1,
              spawned_p = [?btn], dispatched_p = [(0, ''GPIO1_A0'')],
              hw_p = [Call_In 0 0 gpio_BothEdges]\<rparr>"
  let ?bm1 = "\<lparr>buttons_p = [(''GPIO1_A0'', ?btn)], cancelled_p = True, wg_p = 0,
               spawned_p = [], dispatched_p = [(0, ''GPIO1_A0'')],
               hw_p = [Call_Halt 0, Call_In 0 0 gpio_BothEdges]\<rparr>"
  note T = stop_joins_and_silences
    [where host = one_pin
       and cs = "[Do_AddButton \<lparr>PinName_p = ''GPIO1_A0'', Callback_p = Some 0,
                                 DebounceTime_p = 0, Pull_p = 0\<rparr>,
                  Do_Start, Do_WakeUp (0, 0, press_at (1000 * Millisecond))]"
       and bm = ?bm
       and wakes = "[(0, 1000 * Millisecond, press_at (2000 * Millisecond))]"
       and bms = ?bm1
       and cs' = "[Do_Start,
                   Do_WakeUp (0, 1000 * Millisecond, press_at (3000 * Millisecond))]"
       and bmz = ?bm1 and bmc = NewButtonManager_c]
  have h: "run_p one_pin
       [Do_AddButton \<lparr>PinName_p = ''GPIO1_A0'', Callback_p = Some 0,
                       DebounceTime_p = 0, Pull_p = 0\<rparr>,
        Do_Start, Do_WakeUp (0, 0, press_at (1000 * Millisecond))]
       NewButtonManager_p = Some ?bm \<and>
     Stop_p ?bm [(0, 1000 * Millisecond, press_at (2000 * Millisecond))] = Some ?bm1 \<and>
     run_p one_pin
       [Do_Start, Do_WakeUp (0, 1000 * Millisecond, press_at (3000 * Millisecond))] ?bm1 =
       Some ?bm1"
    using run_example stop_example run_after_stop_example by (intro conjI)
  from T[THEN conjunct1] h
  have c: "spawned_p ?bm1 = [] \<and> wg_p ?bm1 = 0 \<and>
      (\<forall>kb \<in> set (buttons_p ?bm1). \<not> is_open (pin_p (snd kb)) (hw_p ?bm1)) \<and>
      dispatched_p ?bm1 = dispatched_p ?bm1"
    by (rule mp)
  then have o: "\<not> is_open 0 [Call_Halt 0, Call_In 0 0 gpio_BothEdges]" by simp
  from h o show ?thesis by (simp del: run_p.simps)
qed

text \<open>
  Claim C9 fails on the poll variant. After one button is registered and \<^verbatim>\<open>Start\<close> is
  called, the counter of the wait group is 1, and a \<^verbatim>\<open>Stop\<close> during which the monitor is
  not woken does not return: the call stays in \<^verbatim>\<open>wg.Wait\<close>. It returns when the monitor
  is woken once.
\<close>

theorem stop_after_start_blocks:
  "wg_p (snd (Start_p (snd (AddButton_p one_pin NewButtonManager_p
     \<lparr>PinName_p = ''GPIO1_A0'', Callback_p = Some 0, DebounceTime_p = 0,
      Pull_p = 0\<rparr>)))) = 1 \<and>
   Stop_p (snd (Start_p (snd (AddButton_p one_pin NewButtonManager_p
     \<lparr>PinName_p = ''GPIO1_A0'', Callback_p = Some 0, DebounceTime_p = 0,
      Pull_p = 0\<rparr>)))) [] = None \<and>
   Stop_p (snd (Start_p (snd (AddButton_p one_pin NewButtonManager_p
     \<lparr>PinName_p = ''GPIO1_A0'', Callback_p = Some 0, DebounceTime_p = 0,
      Pull_p = 0\<rparr>)))) [(0, 0, press_at (1000 * Millisecond))] \<noteq> None"
  by code_simp

end
